theory Spec2Isabelle
  imports Complex_Main
begin

section \<open>Values, errors and Python indexing\<close>

text \<open>
  The model follows \<^verbatim>\<open>src/data/processing_func.py\<close>. Coordinates are Python
  numbers; they are modelled as reals, so the rounding of a floating-point subtraction
  is not part of the model. Exceptions are values of \<open>py_error\<close>; a function that can
  raise returns \<open>py_error + 'a\<close> with \<open>Inl\<close> for the exception.
\<close>

datatype py_error = IndexError | TypeError | ValueError | ZeroDivisionError

text \<open>A coordinate is the dictionary \<^verbatim>\<open>{"x": ..., "y": ...}\<close> of a jam's line.\<close>

record coord =
  x :: real
  y :: real

text \<open>
  \<^verbatim>\<open>seq[i]\<close> on a Python list: an index from \<open>-len\<close> up to \<open>len - 1\<close> is served,
  anything else raises IndexError.
\<close>

definition py_getitem :: "'a list \<Rightarrow> int \<Rightarrow> py_error + 'a" where
  "py_getitem seq i =
     (if 0 \<le> i \<and> i < int (length seq) then Inr (seq ! nat i)
      else if i < 0 \<and> - int (length seq) \<le> i then Inr (seq ! nat (int (length seq) + i))
      else Inl IndexError)"

section \<open>Direction classification\<close>

text \<open>
  \<^verbatim>\<open>get_direction\<close> returns a pandas Series: \<^verbatim>\<open>pd.Series([None, None])\<close> when
  \<^verbatim>\<open>len(coord_list)\<close> raises (the value is not a sequence: a missing list), and
  \<^verbatim>\<open>pd.Series([lon_direction, lat_direction, major_direction])\<close> otherwise.
  The argument is \<open>None\<close> for a value without a length and \<open>Some cl\<close> for a list.
\<close>

datatype direction_series = NullSeries | DirSeries string string string

definition get_direction :: "coord list option \<Rightarrow> py_error + direction_series" where
  "get_direction coord_list =
     (case coord_list of
        None \<Rightarrow> Inr NullSeries
      | Some cl \<Rightarrow>
          (let num_coords = int (length cl) in
           case py_getitem cl 0 of
             Inl e \<Rightarrow> Inl e
           | Inr c_first \<Rightarrow>
               (case py_getitem cl (num_coords - 1) of
                  Inl e \<Rightarrow> Inl e
                | Inr c_last \<Rightarrow>
                    (let y_start = y c_first;
                         y_end = y c_last;
                         delta_y = y_end - y_start;
                         lat_direction = (if delta_y \<ge> 0 then ''Norte'' else ''Sul'');
                         x_start = x c_first;
                         x_end = x c_last;
                         delta_x = x_end - x_start;
                         lon_direction = (if delta_x \<ge> 0 then ''Leste'' else ''Oeste'');
                         major_direction =
                           (if \<bar>delta_y\<bar> > \<bar>delta_x\<bar> then ''Norte/Sul'' else ''Leste/Oeste'')
                     in Inr (DirSeries lon_direction lat_direction major_direction)))))"

text \<open>
  \<^verbatim>\<open>get_main_direction\<close> (local to \<^verbatim>\<open>extract_geo_sections\<close>) reads the columns
  MinX, MaxX, MinY, MaxY of a row; the row is given here as that quadruple.
\<close>

fun get_main_direction :: "real \<times> real \<times> real \<times> real \<Rightarrow> string" where
  "get_main_direction (MinX, MaxX, MinY, MaxY) =
     (let delta_x = MaxX - MinX;
          delta_y = MaxY - MinY
      in if delta_y \<ge> delta_x then ''Norte/Sul'' else ''Leste/Oeste'')"

section \<open>The geometry libraries as parameters\<close>

text \<open>
  pyproj, shapely and geopandas are not code of this repository. What the program asks
  of them is taken as a parameter of the model:
  \<^item> \<open>proj\<close> is \<^verbatim>\<open>Proj(...)(lon, lat)\<close> and \<open>proj_inverse\<close> the same call with
    \<^verbatim>\<open>inverse=True\<close>;
  \<^item> \<open>line_buffer pts r\<close> is \<^verbatim>\<open>LineString(pts).buffer(r)\<close>, which can raise (shapely
    refuses a line of one point);
  \<^item> \<open>to_crs\<close> is the reprojection of one polygon by \<^verbatim>\<open>GeoDataFrame.to_crs\<close>, which
    touches the active geometry column only;
  \<^item> \<open>op_contains\<close>, \<open>op_within\<close>, \<open>op_intersects\<close> are the binary predicates that
    \<^verbatim>\<open>gpd.sjoin\<close> evaluates as \<^verbatim>\<open>left.op(right)\<close>.
\<close>

record 'g geo_lib =
  proj :: "real \<times> real \<Rightarrow> real \<times> real"
  proj_inverse :: "real \<times> real \<Rightarrow> real \<times> real"
  line_buffer :: "(real \<times> real) list \<Rightarrow> real \<Rightarrow> py_error + 'g"
  to_crs :: "'g \<Rightarrow> 'g"
  op_contains :: "'g \<Rightarrow> 'g \<Rightarrow> bool"
  op_within :: "'g \<Rightarrow> 'g \<Rightarrow> bool"
  op_intersects :: "'g \<Rightarrow> 'g \<Rightarrow> bool"

definition lon_lat_to_UTM :: "'g geo_lib \<Rightarrow> (real \<times> real) list \<Rightarrow> (real \<times> real) list" where
  "lon_lat_to_UTM lib l = map (\<lambda>t. case t of (lon, lat) \<Rightarrow> proj lib (lon, lat)) l"

definition UTM_to_lon_lat :: "'g geo_lib \<Rightarrow> (real \<times> real) list \<Rightarrow> (real \<times> real) list" where
  "UTM_to_lon_lat lib l = map (\<lambda>t. case t of (X, Y) \<Rightarrow> proj_inverse lib (X, Y)) l"

text \<open>
  A GeoDataFrame is its rows and its active geometry column (a selector on the rows);
  \<^verbatim>\<open>set_geometry\<close> changes the active column and nothing else.
\<close>

record ('r, 'g) gdf =
  rows :: "'r list"
  geometry :: "'r \<Rightarrow> 'g"

definition set_geometry :: "('r, 'g) gdf \<Rightarrow> ('r \<Rightarrow> 'g) \<Rightarrow> ('r, 'g) gdf" where
  "set_geometry df col = df\<lparr>geometry := col\<rparr>"

text \<open>
  \<^verbatim>\<open>gpd.sjoin(left, right, how, op)\<close>: one joined row for every pair with
  \<^verbatim>\<open>left.geometry.op(right.geometry)\<close>. With \<^verbatim>\<open>how="left"\<close> a left row without a
  partner is kept once, its right columns null (\<open>None\<close> here).
\<close>

definition sjoin_inner ::
  "('g \<Rightarrow> 'g \<Rightarrow> bool) \<Rightarrow> ('a, 'g) gdf \<Rightarrow> ('b, 'g) gdf \<Rightarrow> ('a \<times> 'b) list" where
  "sjoin_inner pred left_df right_df =
     concat (map (\<lambda>l. map (\<lambda>r. (l, r))
                          (filter (\<lambda>r. pred (geometry left_df l) (geometry right_df r))
                                  (rows right_df)))
                 (rows left_df))"

definition sjoin_left ::
  "('g \<Rightarrow> 'g \<Rightarrow> bool) \<Rightarrow> ('a, 'g) gdf \<Rightarrow> ('b, 'g) gdf \<Rightarrow> ('a \<times> 'b option) list" where
  "sjoin_left pred left_df right_df =
     concat (map (\<lambda>l. let partners = filter (\<lambda>r. pred (geometry left_df l) (geometry right_df r))
                                            (rows right_df)
                       in if partners = [] then [(l, None)]
                          else map (\<lambda>r. (l, Some r)) partners)
                 (rows left_df))"

text \<open>
  \<^verbatim>\<open>Series.apply\<close> / \<^verbatim>\<open>DataFrame.apply(axis=1)\<close> with a function that can raise: the
  column is computed row by row and the first exception ends the call.
\<close>

fun apply_col :: "('a \<Rightarrow> py_error + 'b) \<Rightarrow> 'a list \<Rightarrow> py_error + 'b list" where
  "apply_col f [] = Inr []"
| "apply_col f (v # vs) =
     (case f v of
        Inl e \<Rightarrow> Inl e
      | Inr w \<Rightarrow> (case apply_col f vs of Inl e \<Rightarrow> Inl e | Inr ws \<Rightarrow> Inr (w # ws)))"

section \<open>Sections: \<^verbatim>\<open>extract_geo_sections\<close>\<close>

text \<open>
  A row of the table Section: its key, the street name and three points in planar
  (UTM) coordinates. The columns are taken as present and not null.
\<close>

record section_row =
  SctnId :: int
  SctnDscNome :: string
  SctnDscCoordxUtmComeco :: real
  SctnDscCoordyUtmComeco :: real
  SctnDscCoordxUtmMeio :: real
  SctnDscCoordyUtmMeio :: real
  SctnDscCoordxUtmFinal :: real
  SctnDscCoordyUtmFinal :: real

text \<open>A row of the frame \<^verbatim>\<open>geo_sections\<close>: the table row and the columns added to it.\<close>

record 'g geo_section = section_row +
  MinX :: real
  MaxX :: real
  MinY :: real
  MaxY :: real
  StreetDirection :: "string option"
  SectionDirection :: string
  Street_line_XY :: "(real \<times> real) list"
  Street_line_LonLat :: "(real \<times> real) list"
  section_LineString :: 'g
  section_alt_LineString :: 'g

text \<open>The four bounding-box columns of a section row (lines 253 to 271).\<close>

definition col_MinX :: "section_row \<Rightarrow> real" where
  "col_MinX r = min (SctnDscCoordxUtmComeco r) (min (SctnDscCoordxUtmMeio r) (SctnDscCoordxUtmFinal r))"

definition col_MaxX :: "section_row \<Rightarrow> real" where
  "col_MaxX r = max (SctnDscCoordxUtmComeco r) (max (SctnDscCoordxUtmMeio r) (SctnDscCoordxUtmFinal r))"

definition col_MinY :: "section_row \<Rightarrow> real" where
  "col_MinY r = min (SctnDscCoordyUtmComeco r) (min (SctnDscCoordyUtmMeio r) (SctnDscCoordyUtmFinal r))"

definition col_MaxY :: "section_row \<Rightarrow> real" where
  "col_MaxY r = max (SctnDscCoordyUtmComeco r) (max (SctnDscCoordyUtmMeio r) (SctnDscCoordyUtmFinal r))"

text \<open>
  \<^verbatim>\<open>gb\<close>: the rows grouped by street name, the box columns aggregated with min and max,
  and \<^verbatim>\<open>get_main_direction\<close> applied to every aggregate. A group is never empty: its
  name is the name of one of its rows.
\<close>

definition street_box :: "section_row list \<Rightarrow> string \<Rightarrow> real \<times> real \<times> real \<times> real" where
  "street_box df_sections name =
     (let grp = filter (\<lambda>r. SctnDscNome r = name) df_sections
      in (Min (set (map col_MinX grp)), Max (set (map col_MaxX grp)),
          Min (set (map col_MinY grp)), Max (set (map col_MaxY grp))))"

definition gb :: "section_row list \<Rightarrow> (string \<times> string) list" where
  "gb df_sections =
     map (\<lambda>name. (name, get_main_direction (street_box df_sections name)))
         (remdups (map SctnDscNome df_sections))"

text \<open>The three points of a section, the column Street_line_XY (lines 287 to 290).\<close>

definition col_Street_line_XY :: "section_row \<Rightarrow> (real \<times> real) list" where
  "col_Street_line_XY r =
     [(SctnDscCoordxUtmComeco r, SctnDscCoordyUtmComeco r),
      (SctnDscCoordxUtmMeio r, SctnDscCoordyUtmMeio r),
      (SctnDscCoordxUtmFinal r, SctnDscCoordyUtmFinal r)]"

text \<open>
  pandas computes a frame column by column, so an exception in one column is raised
  before any later column is touched; the model computes the columns that can raise in
  the order of the source and builds the rows at the end. On a frame without rows
  \<^verbatim>\<open>DataFrame.apply(axis=1)\<close> returns no column, and storing its result as a column
  raises ValueError: for an empty Section table that happens at line 253.
  \<^verbatim>\<open>to_crs\<close> reprojects the active geometry column, \<open>section_LineString\<close>, and
  leaves \<open>section_alt_LineString\<close> as it is.
\<close>

definition extract_geo_sections ::
  "'g geo_lib \<Rightarrow> section_row list \<Rightarrow> real \<Rightarrow> real \<Rightarrow> py_error + ('g geo_section, 'g) gdf" where
  "extract_geo_sections lib df_sections main_buffer alt_buffer =
     (if df_sections = [] then Inl ValueError
      else
      let col_xy = map col_Street_line_XY df_sections
      in case apply_col (\<lambda>l. line_buffer lib l main_buffer) col_xy of
           Inl e \<Rightarrow> Inl e
         | Inr col_main \<Rightarrow>
             (case apply_col (\<lambda>l. line_buffer lib l alt_buffer) col_xy of
                Inl e \<Rightarrow> Inl e
              | Inr col_alt \<Rightarrow>
                  Inr \<lparr>rows =
                         map (\<lambda>(r, l, g, ga).
                                \<lparr>SctnId = SctnId r, SctnDscNome = SctnDscNome r,
                                 SctnDscCoordxUtmComeco = SctnDscCoordxUtmComeco r,
                                 SctnDscCoordyUtmComeco = SctnDscCoordyUtmComeco r,
                                 SctnDscCoordxUtmMeio = SctnDscCoordxUtmMeio r,
                                 SctnDscCoordyUtmMeio = SctnDscCoordyUtmMeio r,
                                 SctnDscCoordxUtmFinal = SctnDscCoordxUtmFinal r,
                                 SctnDscCoordyUtmFinal = SctnDscCoordyUtmFinal r,
                                 MinX = col_MinX r, MaxX = col_MaxX r,
                                 MinY = col_MinY r, MaxY = col_MaxY r,
                                 StreetDirection = map_of (gb df_sections) (SctnDscNome r),
                                 SectionDirection =
                                   get_main_direction (col_MinX r, col_MaxX r, col_MinY r, col_MaxY r),
                                 Street_line_XY = l,
                                 Street_line_LonLat = UTM_to_lon_lat lib l,
                                 section_LineString = to_crs lib g,
                                 section_alt_LineString = ga\<rparr>)
                             (zip df_sections (zip col_xy (zip col_main col_alt))),
                       geometry = section_LineString\<rparr>))"

section \<open>Jams: \<^verbatim>\<open>extract_geo_jams\<close>\<close>

text \<open>
  A row of the table Jam, with the columns the matching reads: the key, the start time
  (a timestamp, here an integer), the unique id, and the coordinate list, which is
  \<open>None\<close> when the cell holds no list.
\<close>

record jam_row =
  JamId :: int
  JamDateStart :: int
  JamUuid :: string
  JamDscCoordinatesLonLat :: "coord list option"

record 'g geo_jam = jam_row +
  jams_line_list :: "(real \<times> real) list"
  jams_line_UTM :: "(real \<times> real) list"
  jam_LineString :: 'g
  jam_alt_LineString :: 'g
  LonDirection :: "string option"
  LatDirection :: "string option"
  MajorDirection :: "string option"

text \<open>
  The query of line 304: the table ordered by JamDateStart, then offset and limit. The
  order among rows of equal JamDateStart is the table's own (a stable sort); SQL leaves
  it open, and that freedom is not modelled. The concrete tables below have distinct
  start times, for which the order is determined.
\<close>

definition select_jams :: "jam_row list \<Rightarrow> nat \<Rightarrow> nat option \<Rightarrow> jam_row list" where
  "select_jams jam_tbl skip limit =
     (let ordered = sort_key JamDateStart jam_tbl;
          after = drop skip ordered
      in case limit of None \<Rightarrow> after | Some n \<Rightarrow> take n after)"

text \<open>The three direction cells a Series gives a row; a missing cell is \<open>None\<close>.\<close>

fun series_cells :: "direction_series \<Rightarrow> string option \<times> string option \<times> string option" where
  "series_cells NullSeries = (None, None, None)"
| "series_cells (DirSeries lon_direction lat_direction major_direction) =
     (Some lon_direction, Some lat_direction, Some major_direction)"

text \<open>
  The column jams_line_list (line 306): iterating a cell that is not a list raises
  TypeError.
\<close>

definition col_jams_line_list :: "jam_row \<Rightarrow> py_error + (real \<times> real) list" where
  "col_jams_line_list r =
     (case JamDscCoordinatesLonLat r of
        None \<Rightarrow> Inl TypeError
      | Some cl \<Rightarrow> Inr (map (\<lambda>d. (x d, y d)) cl))"

text \<open>
  Lines 306 to 316, column by column as for the sections. Lines 306 and 307 are
  \<^verbatim>\<open>Series.apply\<close>; line 308 is the first \<^verbatim>\<open>DataFrame.apply(axis=1)\<close> and raises
  ValueError on a page without rows. The direction columns come from
  \<^verbatim>\<open>get_direction\<close> on the geographic coordinates; \<^verbatim>\<open>to_crs\<close> reprojects
  \<open>jam_LineString\<close> only.
\<close>

definition extract_geo_jams ::
  "'g geo_lib \<Rightarrow> jam_row list \<Rightarrow> nat \<Rightarrow> nat option \<Rightarrow> real \<Rightarrow> real
     \<Rightarrow> py_error + ('g geo_jam, 'g) gdf" where
  "extract_geo_jams lib jam_tbl skip limit main_buffer alt_buffer =
     (let df_jams = select_jams jam_tbl skip limit
      in case apply_col col_jams_line_list df_jams of
           Inl e \<Rightarrow> Inl e
         | Inr col_list \<Rightarrow>
             (let col_UTM = map (lon_lat_to_UTM lib) col_list
              in if df_jams = [] then Inl ValueError
                 else
                 case apply_col (\<lambda>u. line_buffer lib u main_buffer) col_UTM of
                   Inl e \<Rightarrow> Inl e
                 | Inr col_main \<Rightarrow>
                     (case apply_col (\<lambda>u. line_buffer lib u alt_buffer) col_UTM of
                        Inl e \<Rightarrow> Inl e
                      | Inr col_alt \<Rightarrow>
                          (case apply_col get_direction (map JamDscCoordinatesLonLat df_jams) of
                             Inl e \<Rightarrow> Inl e
                           | Inr col_dir \<Rightarrow>
                               Inr \<lparr>rows =
                                      map (\<lambda>(r, ll, u, g, ga, d).
                                             \<lparr>JamId = JamId r, JamDateStart = JamDateStart r,
                                              JamUuid = JamUuid r,
                                              JamDscCoordinatesLonLat = JamDscCoordinatesLonLat r,
                                              jams_line_list = ll, jams_line_UTM = u,
                                              jam_LineString = to_crs lib g,
                                              jam_alt_LineString = ga,
                                              LonDirection = fst (series_cells d),
                                              LatDirection = fst (snd (series_cells d)),
                                              MajorDirection = snd (snd (series_cells d))\<rparr>)
                                          (zip df_jams (zip col_list (zip col_UTM
                                             (zip col_main (zip col_alt col_dir))))),
                                    geometry = jam_LineString\<rparr>))))"

section \<open>The three tiers: the loop body of \<^verbatim>\<open>store_jps\<close>\<close>

text \<open>
  A cell that can be missing is an \<open>option\<close>; \<^verbatim>\<open>==\<close> on a missing cell (NaN) is
  false, on two strings it is equality.
\<close>

definition cell_eq :: "string option \<Rightarrow> string option \<Rightarrow> bool" where
  "cell_eq a b = (case a of None \<Rightarrow> False | Some u \<Rightarrow> (case b of None \<Rightarrow> False | Some v \<Rightarrow> u = v))"

text \<open>\<^verbatim>\<open>check_directions\<close> on a joined row, given as the jam and the section it joins.\<close>

definition check_directions :: "'g geo_jam \<times> 'g geo_section \<Rightarrow> bool" where
  "check_directions joined =
     (if cell_eq (MajorDirection (fst joined)) (StreetDirection (snd joined)) then True
      else if cell_eq (MajorDirection (fst joined)) (Some (SectionDirection (snd joined))) then True
      else False)"

text \<open>
  The JamId of the joined rows whose SctnId is null, and \<^verbatim>\<open>dropna(subset=["SctnId"])\<close>.
  SctnId is the key of the Section table and never null in a section row, so a null
  SctnId marks exactly the left rows the join found no partner for.
\<close>

definition isnull_JamId :: "('g geo_jam \<times> 'g geo_section option) list \<Rightarrow> int list" where
  "isnull_JamId joined = map (\<lambda>p. JamId (fst p)) (filter (\<lambda>p. snd p = None) joined)"

definition dropna_SctnId ::
  "('g geo_jam \<times> 'g geo_section option) list \<Rightarrow> ('g geo_jam \<times> 'g geo_section) list" where
  "dropna_SctnId joined =
     concat (map (\<lambda>p. case snd p of None \<Rightarrow> [] | Some s \<Rightarrow> [(fst p, s)]) joined)"

text \<open>\<^verbatim>\<open>geo_jams.loc[geo_jams["JamId"].isin(ids)]\<close>\<close>

definition loc_isin :: "('g geo_jam, 'g) gdf \<Rightarrow> int list \<Rightarrow> ('g geo_jam, 'g) gdf" where
  "loc_isin df ids = df\<lparr>rows := filter (\<lambda>j. JamId j \<in> set ids) (rows df)\<rparr>"

text \<open>
  One pass of the loop body (lines 178 to 208) on a page \<open>geo_jams\<close>, with the section
  frame as the previous pass left it. The local variables of the source are fields of
  the result, with the values they hold when the pass ends. Line 196 stores the result
  of \<^verbatim>\<open>apply(..., axis=1)\<close> on the Tier C join as a column; when the join has no row
  that raises ValueError, the pass ends there, and lines 197 to 208 are not reached:
  \<open>jams_per_section\<close> is then the exception, and otherwise the rows \<^verbatim>\<open>to_sql\<close> appends.
  \<open>jams_per_section_intersects\<close> is the join of line 195 after the filter of line 197
  (on a join without rows, the join itself). \<open>geo_sections_out\<close> is the section frame
  the next pass starts from.
\<close>

text \<open>The columns line 206 keeps of a joined row.\<close>

definition to_sql_row :: "'g geo_jam \<times> 'g geo_section \<Rightarrow> int \<times> string \<times> int" where
  "to_sql_row p = (JamDateStart (fst p), JamUuid (fst p), SctnId (snd p))"

record 'g batch =
  jams_per_section_contains :: "('g geo_jam \<times> 'g geo_section) list"
  ids_not_located_contains :: "int list"
  jams_left_from_contains :: "('g geo_jam, 'g) gdf"
  jams_per_section_within :: "('g geo_jam \<times> 'g geo_section) list"
  ids_not_located_within :: "int list"
  jams_left_from_within :: "('g geo_jam, 'g) gdf"
  jams_per_section_intersects :: "('g geo_jam \<times> 'g geo_section) list"
  jams_per_section :: "py_error + (int \<times> string \<times> int) list"
  geo_sections_out :: "('g geo_section, 'g) gdf"

definition store_batch ::
  "'g geo_lib \<Rightarrow> ('g geo_jam, 'g) gdf \<Rightarrow> ('g geo_section, 'g) gdf \<Rightarrow> 'g batch" where
  "store_batch lib geo_jams geo_sections =
     (let contains_left = sjoin_left (op_contains lib) geo_jams geo_sections;
          ids_contains = isnull_JamId contains_left;
          contains_pairs = dropna_SctnId contains_left;
          left_from_contains = set_geometry (loc_isin geo_jams ids_contains) jam_alt_LineString;
          geo_sections_alt = set_geometry geo_sections section_alt_LineString;
          within_left = sjoin_left (op_within lib) left_from_contains geo_sections_alt;
          ids_within = isnull_JamId within_left;
          within_pairs = dropna_SctnId within_left;
          geo_sections_main = set_geometry geo_sections_alt section_LineString;
          left_from_within = loc_isin geo_jams ids_within;
          intersects_joined = sjoin_inner (op_intersects lib) left_from_within geo_sections_main;
          intersects_pairs = filter check_directions intersects_joined
      in \<lparr>jams_per_section_contains = contains_pairs,
          ids_not_located_contains = ids_contains,
          jams_left_from_contains = left_from_contains,
          jams_per_section_within = within_pairs,
          ids_not_located_within = ids_within,
          jams_left_from_within = left_from_within,
          jams_per_section_intersects = intersects_pairs,
          jams_per_section =
            (if intersects_joined = [] then Inl ValueError
             else Inr (map to_sql_row (contains_pairs @ within_pairs @ intersects_pairs))),
          geo_sections_out = geo_sections_main\<rparr>)"

section \<open>The batch loop: \<^verbatim>\<open>store_jps\<close>\<close>

text \<open>
  The state of the loop is the section frame and the table JamPerSection; \<^verbatim>\<open>to_sql\<close>
  appends to the table. An exception ends the run and leaves the table as the passes
  before it wrote it: the result is the exception (\<open>None\<close> for a normal return) and the
  table. The calls of lines 167 and 175 fix the radii: sections 10 (main) and 20 (alt),
  jams 20 (main) and 10 (alt).
\<close>

fun store_loop ::
  "'g geo_lib \<Rightarrow> jam_row list \<Rightarrow> int \<Rightarrow> nat list \<Rightarrow> ('g geo_section, 'g) gdf
     \<Rightarrow> (int \<times> string \<times> int) list \<Rightarrow> py_error option \<times> (int \<times> string \<times> int) list" where
  "store_loop lib jam_tbl batch_size [] geo_sections JamPerSection = (None, JamPerSection)"
| "store_loop lib jam_tbl batch_size (i # is) geo_sections JamPerSection =
     (case extract_geo_jams lib jam_tbl (nat (int i * batch_size)) (Some (nat batch_size)) 20 10 of
        Inl e \<Rightarrow> (Some e, JamPerSection)
      | Inr geo_jams \<Rightarrow>
          (let b = store_batch lib geo_jams geo_sections
           in case jams_per_section b of
                Inl e \<Rightarrow> (Some e, JamPerSection)
              | Inr new_rows \<Rightarrow>
                  store_loop lib jam_tbl batch_size is (geo_sections_out b)
                    (JamPerSection @ new_rows)))"

text \<open>
  \<^verbatim>\<open>math.ceil(total_rows / batch_size)\<close> is the ceiling of the exact quotient (Python 3
  division; the rounding of the float quotient is not modelled) and raises
  ZeroDivisionError for a batch size of 0. \<^verbatim>\<open>range(0, number_batches)\<close> is empty when
  the number is not positive.
\<close>

definition store_jps ::
  "'g geo_lib \<Rightarrow> section_row list \<Rightarrow> jam_row list \<Rightarrow> int \<Rightarrow> (int \<times> string \<times> int) list
     \<Rightarrow> py_error option \<times> (int \<times> string \<times> int) list" where
  "store_jps lib section_tbl jam_tbl batch_size JamPerSection =
     (case extract_geo_sections lib section_tbl 10 20 of
        Inl e \<Rightarrow> (Some e, JamPerSection)
      | Inr geo_sections \<Rightarrow>
          (let total_rows = length jam_tbl
           in if batch_size = 0 then (Some ZeroDivisionError, JamPerSection)
              else (let number_batches = \<lceil>real total_rows / real_of_int batch_size\<rceil>
                    in store_loop lib jam_tbl batch_size [0..<nat number_batches]
                         geo_sections JamPerSection)))"

section \<open>A small geometry library for concrete runs\<close>

text \<open>
  To run the model on concrete tables the parameters need values. \<open>box_lib\<close> is a
  geometry of axis-parallel boxes \<open>(xmin, ymin, xmax, ymax)\<close>: the buffer of a line is the
  box around its points widened by the radius, the projection is the identity, and the
  predicates are those of boxes. Like shapely it refuses a line of fewer than two points.
\<close>

type_synonym box = "real \<times> real \<times> real \<times> real"

definition box_buffer :: "(real \<times> real) list \<Rightarrow> real \<Rightarrow> py_error + box" where
  "box_buffer pts r =
     (if length pts < 2 then Inl ValueError
      else Inr (Min (set (map fst pts)) - r, Min (set (map snd pts)) - r,
                Max (set (map fst pts)) + r, Max (set (map snd pts)) + r))"

fun box_contains :: "box \<Rightarrow> box \<Rightarrow> bool" where
  "box_contains (ax0, ay0, ax1, ay1) (bx0, by0, bx1, by1) =
     (ax0 \<le> bx0 \<and> ay0 \<le> by0 \<and> bx1 \<le> ax1 \<and> by1 \<le> ay1)"

fun box_intersects :: "box \<Rightarrow> box \<Rightarrow> bool" where
  "box_intersects (ax0, ay0, ax1, ay1) (bx0, by0, bx1, by1) =
     (ax0 \<le> bx1 \<and> bx0 \<le> ax1 \<and> ay0 \<le> by1 \<and> by0 \<le> ay1)"

definition box_lib :: "box geo_lib" where
  "box_lib = \<lparr>proj = (\<lambda>p. p), proj_inverse = (\<lambda>p. p), line_buffer = box_buffer,
              to_crs = (\<lambda>g. g), op_contains = box_contains,
              op_within = (\<lambda>a b. box_contains b a), op_intersects = box_intersects\<rparr>"

section \<open>The rows an extraction returns\<close>

text \<open>
  When every cell function returns, the frame an extraction builds has one row per
  input row, and that row is a function of the input row alone (for a section, also of
  the table, through the street aggregate). \<open>geo_section_of\<close> and \<open>geo_jam_of\<close>
  name these rows and \<open>section_ok\<close> and \<open>jam_ok\<close> the rows that raise nothing; they
  serve the proofs below and are related to the extractions by
  \<open>extract_geo_sections_Inr_iff\<close> and \<open>extract_geo_jams_Inr_iff\<close>.
\<close>

definition section_ok :: "'g geo_lib \<Rightarrow> real \<Rightarrow> real \<Rightarrow> section_row \<Rightarrow> bool" where
  "section_ok lib main_buffer alt_buffer r =
     (\<not> isl (line_buffer lib (col_Street_line_XY r) main_buffer) \<and>
      \<not> isl (line_buffer lib (col_Street_line_XY r) alt_buffer))"

definition geo_section_of ::
  "'g geo_lib \<Rightarrow> section_row list \<Rightarrow> real \<Rightarrow> real \<Rightarrow> section_row \<Rightarrow> 'g geo_section" where
  "geo_section_of lib df_sections main_buffer alt_buffer r =
     \<lparr>SctnId = SctnId r, SctnDscNome = SctnDscNome r,
      SctnDscCoordxUtmComeco = SctnDscCoordxUtmComeco r,
      SctnDscCoordyUtmComeco = SctnDscCoordyUtmComeco r,
      SctnDscCoordxUtmMeio = SctnDscCoordxUtmMeio r,
      SctnDscCoordyUtmMeio = SctnDscCoordyUtmMeio r,
      SctnDscCoordxUtmFinal = SctnDscCoordxUtmFinal r,
      SctnDscCoordyUtmFinal = SctnDscCoordyUtmFinal r,
      MinX = col_MinX r, MaxX = col_MaxX r, MinY = col_MinY r, MaxY = col_MaxY r,
      StreetDirection = map_of (gb df_sections) (SctnDscNome r),
      SectionDirection = get_main_direction (col_MinX r, col_MaxX r, col_MinY r, col_MaxY r),
      Street_line_XY = col_Street_line_XY r,
      Street_line_LonLat = UTM_to_lon_lat lib (col_Street_line_XY r),
      section_LineString = to_crs lib (projr (line_buffer lib (col_Street_line_XY r) main_buffer)),
      section_alt_LineString = projr (line_buffer lib (col_Street_line_XY r) alt_buffer)\<rparr>"

definition jam_UTM :: "'g geo_lib \<Rightarrow> jam_row \<Rightarrow> (real \<times> real) list" where
  "jam_UTM lib r = lon_lat_to_UTM lib (projr (col_jams_line_list r))"

definition jam_ok :: "'g geo_lib \<Rightarrow> real \<Rightarrow> real \<Rightarrow> jam_row \<Rightarrow> bool" where
  "jam_ok lib main_buffer alt_buffer r =
     (\<not> isl (col_jams_line_list r) \<and>
      \<not> isl (line_buffer lib (jam_UTM lib r) main_buffer) \<and>
      \<not> isl (line_buffer lib (jam_UTM lib r) alt_buffer) \<and>
      \<not> isl (get_direction (JamDscCoordinatesLonLat r)))"

definition geo_jam_of :: "'g geo_lib \<Rightarrow> real \<Rightarrow> real \<Rightarrow> jam_row \<Rightarrow> 'g geo_jam" where
  "geo_jam_of lib main_buffer alt_buffer r =
     \<lparr>JamId = JamId r, JamDateStart = JamDateStart r, JamUuid = JamUuid r,
      JamDscCoordinatesLonLat = JamDscCoordinatesLonLat r,
      jams_line_list = projr (col_jams_line_list r),
      jams_line_UTM = jam_UTM lib r,
      jam_LineString = to_crs lib (projr (line_buffer lib (jam_UTM lib r) main_buffer)),
      jam_alt_LineString = projr (line_buffer lib (jam_UTM lib r) alt_buffer),
      LonDirection = fst (series_cells (projr (get_direction (JamDscCoordinatesLonLat r)))),
      LatDirection = fst (snd (series_cells (projr (get_direction (JamDscCoordinatesLonLat r))))),
      MajorDirection = snd (snd (series_cells (projr (get_direction (JamDscCoordinatesLonLat r)))))\<rparr>"

section \<open>A concrete scenario\<close>

text \<open>
  Four sections and four jams for the concrete runs below, in the box geometry. Rua A
  runs north-south and Rua B crosses it east-west; Rua C has two short adjoining
  sections. Jam 1 covers both sections of Rua C, jam 2 lies along Rua A, jam 3 passes
  the crossing of Rua A and Rua B heading north, jam 4 is far from every street. The
  projection of \<open>box_lib\<close> is the identity, so the coordinates of a jam are read in the
  plane of the sections. The jam table is not in time order, and the start times are
  distinct, so the order of the query is the only one SQL allows.
\<close>

definition ex_sections :: "section_row list" where
  "ex_sections =
     [\<lparr>SctnId = 1, SctnDscNome = ''Rua A'',
       SctnDscCoordxUtmComeco = 0, SctnDscCoordyUtmComeco = 0,
       SctnDscCoordxUtmMeio = 0, SctnDscCoordyUtmMeio = 50,
       SctnDscCoordxUtmFinal = 0, SctnDscCoordyUtmFinal = 100\<rparr>,
      \<lparr>SctnId = 2, SctnDscNome = ''Rua B'',
       SctnDscCoordxUtmComeco = -50, SctnDscCoordyUtmComeco = 50,
       SctnDscCoordxUtmMeio = 0, SctnDscCoordyUtmMeio = 50,
       SctnDscCoordxUtmFinal = 50, SctnDscCoordyUtmFinal = 50\<rparr>,
      \<lparr>SctnId = 3, SctnDscNome = ''Rua C'',
       SctnDscCoordxUtmComeco = 200, SctnDscCoordyUtmComeco = 0,
       SctnDscCoordxUtmMeio = 200, SctnDscCoordyUtmMeio = 5,
       SctnDscCoordxUtmFinal = 200, SctnDscCoordyUtmFinal = 10\<rparr>,
      \<lparr>SctnId = 4, SctnDscNome = ''Rua C'',
       SctnDscCoordxUtmComeco = 200, SctnDscCoordyUtmComeco = 10,
       SctnDscCoordxUtmMeio = 200, SctnDscCoordyUtmMeio = 15,
       SctnDscCoordxUtmFinal = 200, SctnDscCoordyUtmFinal = 20\<rparr>]"

definition ex_jams :: "jam_row list" where
  "ex_jams =
     [\<lparr>JamId = 3, JamDateStart = 20, JamUuid = ''j3'',
       JamDscCoordinatesLonLat = Some [\<lparr>x = 15, y = 30\<rparr>, \<lparr>x = 18, y = 70\<rparr>]\<rparr>,
      \<lparr>JamId = 1, JamDateStart = 10, JamUuid = ''j1'',
       JamDscCoordinatesLonLat = Some [\<lparr>x = 200, y = -5\<rparr>, \<lparr>x = 200, y = 25\<rparr>]\<rparr>,
      \<lparr>JamId = 4, JamDateStart = 30, JamUuid = ''j4'',
       JamDscCoordinatesLonLat = Some [\<lparr>x = 1000, y = 1000\<rparr>, \<lparr>x = 1010, y = 1000\<rparr>]\<rparr>,
      \<lparr>JamId = 2, JamDateStart = 25, JamUuid = ''j2'',
       JamDscCoordinatesLonLat = Some [\<lparr>x = 0, y = 10\<rparr>, \<lparr>x = 0, y = 25\<rparr>]\<rparr>]"

text \<open>The frames of the scenario, and their rows by position (jams in time order).\<close>

definition ex_geo_jams :: "(box geo_jam, box) gdf" where
  "ex_geo_jams = projr (extract_geo_jams box_lib ex_jams 0 (Some 20000) 20 10)"

definition ex_geo_sections :: "(box geo_section, box) gdf" where
  "ex_geo_sections = projr (extract_geo_sections box_lib ex_sections 10 20)"

definition ex_j1 :: "box geo_jam" where "ex_j1 = rows ex_geo_jams ! 0"
definition ex_j3 :: "box geo_jam" where "ex_j3 = rows ex_geo_jams ! 1"
definition ex_j2 :: "box geo_jam" where "ex_j2 = rows ex_geo_jams ! 2"
definition ex_j4 :: "box geo_jam" where "ex_j4 = rows ex_geo_jams ! 3"

definition ex_s1 :: "box geo_section" where "ex_s1 = rows ex_geo_sections ! 0"
definition ex_s2 :: "box geo_section" where "ex_s2 = rows ex_geo_sections ! 1"
definition ex_s3 :: "box geo_section" where "ex_s3 = rows ex_geo_sections ! 2"
definition ex_s4 :: "box geo_section" where "ex_s4 = rows ex_geo_sections ! 3"

text \<open>
  Three single sections for the direction classifications: two that share their first
  and last points and differ in the middle point, and one whose bounding box is square.
\<close>

definition ex_flat_section :: section_row where
  "ex_flat_section =
     \<lparr>SctnId = 5, SctnDscNome = ''Rua D'',
      SctnDscCoordxUtmComeco = 0, SctnDscCoordyUtmComeco = 0,
      SctnDscCoordxUtmMeio = 5, SctnDscCoordyUtmMeio = 0,
      SctnDscCoordxUtmFinal = 10, SctnDscCoordyUtmFinal = 0\<rparr>"

definition ex_bent_section :: section_row where
  "ex_bent_section =
     \<lparr>SctnId = 5, SctnDscNome = ''Rua D'',
      SctnDscCoordxUtmComeco = 0, SctnDscCoordyUtmComeco = 0,
      SctnDscCoordxUtmMeio = 5, SctnDscCoordyUtmMeio = 40,
      SctnDscCoordxUtmFinal = 10, SctnDscCoordyUtmFinal = 0\<rparr>"

definition ex_square_section :: section_row where
  "ex_square_section =
     \<lparr>SctnId = 6, SctnDscNome = ''Rua E'',
      SctnDscCoordxUtmComeco = 0, SctnDscCoordyUtmComeco = 0,
      SctnDscCoordxUtmMeio = 5, SctnDscCoordyUtmMeio = 5,
      SctnDscCoordxUtmFinal = 10, SctnDscCoordyUtmFinal = 10\<rparr>"

definition ex_square_geo :: "(box geo_section, box) gdf" where
  "ex_square_geo = projr (extract_geo_sections box_lib [ex_square_section] 10 20)"




definition ex_j6_row :: jam_row where
  "ex_j6_row = \<lparr>JamId = 6, JamDateStart = 50, JamUuid = ''j6'', JamDscCoordinatesLonLat = Some []\<rparr>"

definition ex_broken_jams :: "jam_row list" where
  "ex_broken_jams = ex_jams @ [ex_j6_row]"

text \<open>The second page of the scenario when the page size is 2: jams 2 and 4.\<close>

definition ex_page2 :: "(box geo_jam, box) gdf" where
  "ex_page2 = projr (extract_geo_jams box_lib ex_jams 2 (Some 2) 20 10)"

section \<open>Facts about columns\<close>

lemma apply_col_Inr_all: "apply_col f vs = Inr ws \<Longrightarrow> v \<in> set vs \<Longrightarrow> \<exists>w. f v = Inr w"
  by (induction vs arbitrary: ws) (auto split: sum.splits)

lemma apply_col_all_Inr:
  "\<forall>v\<in>set vs. \<exists>w. f v = Inr w \<Longrightarrow> apply_col f vs = Inr (map (\<lambda>v. projr (f v)) vs)"
  by (induction vs) (auto split: sum.splits)

lemma apply_col_Inr_map: "apply_col f vs = Inr ws \<Longrightarrow> ws = map (\<lambda>v. projr (f v)) vs"
  by (induction vs arbitrary: ws) (auto split: sum.splits)

lemma apply_col_map: "apply_col f (map g vs) = apply_col (\<lambda>v. f (g v)) vs"
  by (induction vs) (auto split: sum.splits)

lemma apply_col_Inl: "apply_col f vs = Inl e \<Longrightarrow> \<exists>v\<in>set vs. f v = Inl e"
  by (induction vs) (auto split: sum.splits)

lemma apply_col_fails: "v \<in> set vs \<Longrightarrow> f v = Inl e \<Longrightarrow> \<exists>e'. apply_col f vs = Inl e'"
  by (induction vs) (auto split: sum.splits)

section \<open>Facts about the direction classifier\<close>

lemma py_getitem_first: "cl \<noteq> [] \<Longrightarrow> py_getitem cl 0 = Inr (hd cl)"
  by (cases cl) (simp_all add: py_getitem_def)

lemma py_getitem_last: "cl \<noteq> [] \<Longrightarrow> py_getitem cl (int (length cl) - 1) = Inr (last cl)"
  by (simp add: py_getitem_def last_conv_nth nat_diff_distrib')

lemma py_getitem_Nil: "py_getitem [] i = Inl IndexError"
  by (simp add: py_getitem_def)

lemma get_direction_nonempty:
  assumes "cl \<noteq> []"
  shows "get_direction (Some cl) =
     Inr (DirSeries (if x (last cl) - x (hd cl) \<ge> 0 then ''Leste'' else ''Oeste'')
                    (if y (last cl) - y (hd cl) \<ge> 0 then ''Norte'' else ''Sul'')
                    (if \<bar>y (last cl) - y (hd cl)\<bar> > \<bar>x (last cl) - x (hd cl)\<bar>
                     then ''Norte/Sul'' else ''Leste/Oeste''))"
  using assms by (simp add: get_direction_def py_getitem_first py_getitem_last Let_def)

lemma get_direction_empty: "get_direction (Some []) = Inl IndexError"
  by (simp add: get_direction_def py_getitem_Nil)

lemma get_direction_None: "get_direction None = Inr NullSeries"
  by (simp add: get_direction_def)

section \<open>Facts about the extractions\<close>

lemma isr_conv: "(\<not> isl v) \<longleftrightarrow> (\<exists>w. v = Inr w)"
  by (cases v) auto

lemma extract_geo_sections_ok:
  assumes "df \<noteq> []" and "\<forall>r\<in>set df. section_ok lib m a r"
  shows "extract_geo_sections lib df m a =
           Inr \<lparr>rows = map (geo_section_of lib df m a) df, geometry = section_LineString\<rparr>"
proof -
  have 1: "apply_col (\<lambda>l. line_buffer lib l m) (map col_Street_line_XY df)
             = Inr (map (\<lambda>r. projr (line_buffer lib (col_Street_line_XY r) m)) df)"
    unfolding apply_col_map
    by (rule apply_col_all_Inr) (use assms(2) in \<open>auto simp: section_ok_def isr_conv\<close>)
  have 2: "apply_col (\<lambda>l. line_buffer lib l a) (map col_Street_line_XY df)
             = Inr (map (\<lambda>r. projr (line_buffer lib (col_Street_line_XY r) a)) df)"
    unfolding apply_col_map
    by (rule apply_col_all_Inr) (use assms(2) in \<open>auto simp: section_ok_def isr_conv\<close>)
  show ?thesis
    unfolding extract_geo_sections_def Let_def 1 2
    by (simp add: assms(1) zip_map1 zip_map2 zip_same_conv_map geo_section_of_def o_def split_def)
qed

lemma extract_geo_sections_Inr_ok:
  assumes "extract_geo_sections lib df m a = Inr gs" "r \<in> set df"
  shows "section_ok lib m a r"
proof -
  from assms(1) obtain c1 c2 where
    1: "apply_col (\<lambda>l. line_buffer lib l m) (map col_Street_line_XY df) = Inr c1" and
    2: "apply_col (\<lambda>l. line_buffer lib l a) (map col_Street_line_XY df) = Inr c2"
    by (auto simp: extract_geo_sections_def Let_def split: sum.splits if_splits)
  from apply_col_Inr_all [OF 1 [unfolded apply_col_map] assms(2)]
       apply_col_Inr_all [OF 2 [unfolded apply_col_map] assms(2)]
  show ?thesis by (auto simp: section_ok_def)
qed

lemma extract_geo_sections_Inr_nonempty:
  "extract_geo_sections lib df m a = Inr gs \<Longrightarrow> df \<noteq> []"
  by (auto simp: extract_geo_sections_def)

lemma extract_geo_sections_Inr_iff:
  "extract_geo_sections lib df m a = Inr gs \<longleftrightarrow>
     df \<noteq> [] \<and> (\<forall>r\<in>set df. section_ok lib m a r) \<and>
     gs = \<lparr>rows = map (geo_section_of lib df m a) df, geometry = section_LineString\<rparr>"
  using extract_geo_sections_ok [of df lib m a] extract_geo_sections_Inr_ok [of lib df m a gs]
    extract_geo_sections_Inr_nonempty [of lib df m a gs]
  by auto

lemma extract_geo_jams_ok:
  assumes "select_jams tbl skip limit \<noteq> []"
    and "\<forall>r\<in>set (select_jams tbl skip limit). jam_ok lib m a r"
  shows "extract_geo_jams lib tbl skip limit m a =
           Inr \<lparr>rows = map (geo_jam_of lib m a) (select_jams tbl skip limit),
                geometry = jam_LineString\<rparr>"
proof -
  define df where "df = select_jams tbl skip limit"
  have ok: "\<forall>r\<in>set df. jam_ok lib m a r" using assms(2) by (simp add: df_def)
  have ne: "df \<noteq> []" using assms(1) by (simp add: df_def)
  have 1: "apply_col col_jams_line_list df = Inr (map (\<lambda>r. projr (col_jams_line_list r)) df)"
    by (rule apply_col_all_Inr) (use ok in \<open>auto simp: jam_ok_def isr_conv\<close>)
  have 2: "apply_col (\<lambda>u. line_buffer lib u m)
             (map (lon_lat_to_UTM lib) (map (\<lambda>r. projr (col_jams_line_list r)) df))
           = Inr (map (\<lambda>r. projr (line_buffer lib (jam_UTM lib r) m)) df)"
    unfolding apply_col_map jam_UTM_def [symmetric]
    by (rule apply_col_all_Inr) (use ok in \<open>auto simp: jam_ok_def isr_conv\<close>)
  have 3: "apply_col (\<lambda>u. line_buffer lib u a)
             (map (lon_lat_to_UTM lib) (map (\<lambda>r. projr (col_jams_line_list r)) df))
           = Inr (map (\<lambda>r. projr (line_buffer lib (jam_UTM lib r) a)) df)"
    unfolding apply_col_map jam_UTM_def [symmetric]
    by (rule apply_col_all_Inr) (use ok in \<open>auto simp: jam_ok_def isr_conv\<close>)
  have 4: "apply_col get_direction (map JamDscCoordinatesLonLat df)
           = Inr (map (\<lambda>r. projr (get_direction (JamDscCoordinatesLonLat r))) df)"
    unfolding apply_col_map
    by (rule apply_col_all_Inr) (use ok in \<open>auto simp: jam_ok_def isr_conv\<close>)
  show ?thesis
    unfolding extract_geo_jams_def Let_def df_def [symmetric] 1 2 3 4 sum.case
    by (simp add: ne zip_map1 zip_map2 zip_same_conv_map geo_jam_of_def jam_UTM_def o_def split_def)
qed

lemma extract_geo_jams_Inr_ok:
  assumes "extract_geo_jams lib tbl skip limit m a = Inr gj" "r \<in> set (select_jams tbl skip limit)"
  shows "jam_ok lib m a r"
proof -
  define df where "df = select_jams tbl skip limit"
  have r: "r \<in> set df" using assms(2) by (simp add: df_def)
  from assms(1) obtain c1 c2 c3 c4 where
    1: "apply_col col_jams_line_list df = Inr c1" and
    2: "apply_col (\<lambda>u. line_buffer lib u m) (map (lon_lat_to_UTM lib) c1) = Inr c2" and
    3: "apply_col (\<lambda>u. line_buffer lib u a) (map (lon_lat_to_UTM lib) c1) = Inr c3" and
    4: "apply_col get_direction (map JamDscCoordinatesLonLat df) = Inr c4"
    unfolding extract_geo_jams_def Let_def df_def [symmetric]
    by (auto split: sum.splits if_splits)
  have c1: "c1 = map (\<lambda>r. projr (col_jams_line_list r)) df"
    using apply_col_Inr_map [OF 1] .
  from apply_col_Inr_all [OF 1 r]
       apply_col_Inr_all [OF 2 [unfolded c1 apply_col_map jam_UTM_def [symmetric]] r]
       apply_col_Inr_all [OF 3 [unfolded c1 apply_col_map jam_UTM_def [symmetric]] r]
       apply_col_Inr_all [OF 4 [unfolded apply_col_map] r]
  show ?thesis by (auto simp: jam_ok_def)
qed

lemma extract_geo_jams_Inr_nonempty:
  "extract_geo_jams lib tbl skip limit m a = Inr gj \<Longrightarrow> select_jams tbl skip limit \<noteq> []"
  by (auto simp: extract_geo_jams_def Let_def split: sum.splits)

lemma extract_geo_jams_Inr_iff:
  "extract_geo_jams lib tbl skip limit m a = Inr gj \<longleftrightarrow>
     select_jams tbl skip limit \<noteq> [] \<and>
     (\<forall>r\<in>set (select_jams tbl skip limit). jam_ok lib m a r) \<and>
     gj = \<lparr>rows = map (geo_jam_of lib m a) (select_jams tbl skip limit), geometry = jam_LineString\<rparr>"
  using extract_geo_jams_ok [of tbl skip limit lib m a]
        extract_geo_jams_Inr_ok [of lib tbl skip limit m a gj]
        extract_geo_jams_Inr_nonempty [of lib tbl skip limit m a gj]
  by auto

lemma map_of_gb:
  "r \<in> set df \<Longrightarrow>
     map_of (gb df) (SctnDscNome r) = Some (get_main_direction (street_box df (SctnDscNome r)))"
  by (simp add: gb_def map_of_map_restrict)

lemma geo_section_facts:
  assumes "extract_geo_sections lib df m a = Inr gs" "s \<in> set (rows gs)"
  shows "geometry gs = section_LineString"
    and "\<exists>thin. line_buffer lib (Street_line_XY s) m = Inr thin \<and> section_LineString s = to_crs lib thin"
    and "line_buffer lib (Street_line_XY s) a = Inr (section_alt_LineString s)"
    and "SectionDirection s = get_main_direction (MinX s, MaxX s, MinY s, MaxY s)"
    and "StreetDirection s = Some (get_main_direction (street_box df (SctnDscNome s)))"
    and "\<exists>r\<in>set df. s = geo_section_of lib df m a r"
proof -
  from assms(1) have ok: "\<forall>r\<in>set df. section_ok lib m a r"
    and gs: "gs = \<lparr>rows = map (geo_section_of lib df m a) df, geometry = section_LineString\<rparr>"
    by (simp_all add: extract_geo_sections_Inr_iff)
  from gs assms(2) obtain r where r: "r \<in> set df" and s: "s = geo_section_of lib df m a r"
    by auto
  from ok r have okr: "section_ok lib m a r" by blast
  show "geometry gs = section_LineString" by (simp add: gs)
  show "\<exists>thin. line_buffer lib (Street_line_XY s) m = Inr thin \<and> section_LineString s = to_crs lib thin"
    using okr by (auto simp: s geo_section_of_def section_ok_def isr_conv)
  show "line_buffer lib (Street_line_XY s) a = Inr (section_alt_LineString s)"
    using okr by (auto simp: s geo_section_of_def section_ok_def isr_conv)
  show "SectionDirection s = get_main_direction (MinX s, MaxX s, MinY s, MaxY s)"
    by (simp add: s geo_section_of_def)
  show "StreetDirection s = Some (get_main_direction (street_box df (SctnDscNome s)))"
    using r by (simp add: s geo_section_of_def map_of_gb)
  show "\<exists>r\<in>set df. s = geo_section_of lib df m a r" using r s by blast
qed

lemma jam_ok_coords:
  assumes "jam_ok lib m a r"
  shows "\<exists>cl. JamDscCoordinatesLonLat r = Some cl \<and> cl \<noteq> []"
proof -
  from assms have 1: "\<not> isl (col_jams_line_list r)"
    and 2: "\<not> isl (get_direction (JamDscCoordinatesLonLat r))"
    by (simp_all add: jam_ok_def)
  from 1 obtain cl where cl: "JamDscCoordinatesLonLat r = Some cl"
    by (auto simp: col_jams_line_list_def split: option.splits)
  from 2 cl have "cl \<noteq> []" by (auto simp: get_direction_empty)
  with cl show ?thesis by blast
qed

lemma geo_jam_facts:
  assumes "extract_geo_jams lib tbl skip limit m a = Inr gj" "j \<in> set (rows gj)"
  shows "geometry gj = jam_LineString"
    and "\<exists>fat. line_buffer lib (jams_line_UTM j) m = Inr fat \<and> jam_LineString j = to_crs lib fat"
    and "line_buffer lib (jams_line_UTM j) a = Inr (jam_alt_LineString j)"
    and "\<exists>cl lon lat major. JamDscCoordinatesLonLat j = Some cl \<and> cl \<noteq> [] \<and>
           get_direction (Some cl) = Inr (DirSeries lon lat major) \<and>
           LonDirection j = Some lon \<and> LatDirection j = Some lat \<and> MajorDirection j = Some major"
    and "\<exists>r\<in>set (select_jams tbl skip limit). j = geo_jam_of lib m a r"
proof -
  from assms(1) have ok: "\<forall>r\<in>set (select_jams tbl skip limit). jam_ok lib m a r"
    and gj: "gj = \<lparr>rows = map (geo_jam_of lib m a) (select_jams tbl skip limit),
                   geometry = jam_LineString\<rparr>"
    by (simp_all add: extract_geo_jams_Inr_iff)
  from gj assms(2) obtain r where r: "r \<in> set (select_jams tbl skip limit)"
    and j: "j = geo_jam_of lib m a r"
    by auto
  from ok r have okr: "jam_ok lib m a r" by blast
  show "geometry gj = jam_LineString" by (simp add: gj)
  show "\<exists>fat. line_buffer lib (jams_line_UTM j) m = Inr fat \<and> jam_LineString j = to_crs lib fat"
    using okr by (auto simp: j geo_jam_of_def jam_ok_def isr_conv)
  show "line_buffer lib (jams_line_UTM j) a = Inr (jam_alt_LineString j)"
    using okr by (auto simp: j geo_jam_of_def jam_ok_def isr_conv)
  from jam_ok_coords [OF okr] obtain cl where cl: "JamDscCoordinatesLonLat r = Some cl" "cl \<noteq> []"
    by blast
  show "\<exists>cl lon lat major. JamDscCoordinatesLonLat j = Some cl \<and> cl \<noteq> [] \<and>
           get_direction (Some cl) = Inr (DirSeries lon lat major) \<and>
           LonDirection j = Some lon \<and> LatDirection j = Some lat \<and> MajorDirection j = Some major"
    using cl by (simp add: j geo_jam_of_def get_direction_nonempty)
  show "\<exists>r\<in>set (select_jams tbl skip limit). j = geo_jam_of lib m a r" using r j by blast
qed

lemma empty_coordinates_abort:
  assumes "r \<in> set (select_jams tbl skip limit)" and "JamDscCoordinatesLonLat r = Some []"
  shows "isl (extract_geo_jams lib tbl skip limit m a)"
proof (rule ccontr)
  assume "\<not> isl (extract_geo_jams lib tbl skip limit m a)"
  then obtain gj where "extract_geo_jams lib tbl skip limit m a = Inr gj"
    by (auto simp: isr_conv)
  from jam_ok_coords [OF extract_geo_jams_Inr_ok [OF this assms(1)]] assms(2)
  show False by simp
qed

section \<open>Facts about the joins and one pass of the loop\<close>

lemma sjoin_inner_set:
  "(l, r) \<in> set (sjoin_inner pred L R) \<longleftrightarrow>
     l \<in> set (rows L) \<and> r \<in> set (rows R) \<and> pred (geometry L l) (geometry R r)"
  by (auto simp: sjoin_inner_def)

lemma dropna_SctnId_append: "dropna_SctnId (ps @ qs) = dropna_SctnId ps @ dropna_SctnId qs"
  by (simp add: dropna_SctnId_def)

lemma dropna_SctnId_Some: "dropna_SctnId (map (\<lambda>r. (l, Some r)) rs) = map (\<lambda>r. (l, r)) rs"
  by (induction rs) (simp_all add: dropna_SctnId_def)

lemma dropna_sjoin_left_rows:
  "dropna_SctnId (concat (map (\<lambda>l. let partners = filter (P l) rs
                                    in if partners = [] then [(l, None)]
                                       else map (\<lambda>r. (l, Some r)) partners) ls))
   = concat (map (\<lambda>l. map (\<lambda>r. (l, r)) (filter (P l) rs)) ls)"
proof (induction ls)
  case Nil
  show ?case by (simp add: dropna_SctnId_def)
next
  case (Cons l ls)
  show ?case
  proof (cases "filter (P l) rs = []")
    case True
    then show ?thesis using Cons.IH
      by (simp add: dropna_SctnId_append Let_def) (simp add: dropna_SctnId_def)
  next
    case False
    then show ?thesis using Cons.IH
      by (simp add: dropna_SctnId_append dropna_SctnId_Some Let_def)
  qed
qed

lemma dropna_sjoin_left: "dropna_SctnId (sjoin_left pred L R) = sjoin_inner pred L R"
  unfolding sjoin_left_def sjoin_inner_def by (rule dropna_sjoin_left_rows)

lemma isnull_JamId_append: "isnull_JamId (ps @ qs) = isnull_JamId ps @ isnull_JamId qs"
  by (simp add: isnull_JamId_def)

lemma isnull_JamId_Some: "isnull_JamId (map (\<lambda>r. (l, Some r)) rs) = []"
  by (induction rs) (simp_all add: isnull_JamId_def)

lemma isnull_sjoin_left_rows:
  "isnull_JamId (concat (map (\<lambda>l. let partners = filter (P l) rs
                                   in if partners = [] then [(l, None)]
                                      else map (\<lambda>r. (l, Some r)) partners) ls))
   = map JamId (filter (\<lambda>l. filter (P l) rs = []) ls)"
proof (induction ls)
  case Nil
  show ?case by (simp add: isnull_JamId_def)
next
  case (Cons l ls)
  show ?case
  proof (cases "filter (P l) rs = []")
    case True
    then show ?thesis using Cons.IH
      by (simp add: isnull_JamId_append Let_def) (simp add: isnull_JamId_def)
  next
    case False
    then show ?thesis using Cons.IH
      by (simp add: isnull_JamId_append isnull_JamId_Some Let_def)
  qed
qed

lemma isnull_sjoin_left:
  "isnull_JamId (sjoin_left pred L R) =
     map JamId (filter (\<lambda>l. filter (\<lambda>r. pred (geometry L l) (geometry R r)) (rows R) = []) (rows L))"
  unfolding sjoin_left_def by (rule isnull_sjoin_left_rows)

text \<open>The fields of a pass, one by one.\<close>

lemma batch_contains:
  "jams_per_section_contains (store_batch lib gj gs) = sjoin_inner (op_contains lib) gj gs"
  by (simp add: store_batch_def Let_def dropna_sjoin_left)

lemma batch_ids_contains:
  "ids_not_located_contains (store_batch lib gj gs) =
     map JamId (filter (\<lambda>j. filter (\<lambda>s. op_contains lib (geometry gj j) (geometry gs s)) (rows gs) = [])
                       (rows gj))"
  by (simp add: store_batch_def Let_def isnull_sjoin_left)

lemma batch_left_from_contains:
  "jams_left_from_contains (store_batch lib gj gs) =
     \<lparr>rows = filter (\<lambda>j. JamId j \<in> set (ids_not_located_contains (store_batch lib gj gs))) (rows gj),
      geometry = jam_alt_LineString\<rparr>"
  by (simp add: store_batch_def Let_def loc_isin_def set_geometry_def)

lemma batch_within:
  "jams_per_section_within (store_batch lib gj gs) =
     sjoin_inner (op_within lib) (jams_left_from_contains (store_batch lib gj gs))
       (set_geometry gs section_alt_LineString)"
  by (simp add: store_batch_def Let_def dropna_sjoin_left)

lemma batch_ids_within:
  "ids_not_located_within (store_batch lib gj gs) =
     map JamId (filter (\<lambda>j. filter (\<lambda>s. op_within lib (jam_alt_LineString j) (section_alt_LineString s))
                                   (rows gs) = [])
                       (rows (jams_left_from_contains (store_batch lib gj gs))))"
  by (simp add: store_batch_def Let_def isnull_sjoin_left set_geometry_def loc_isin_def)

lemma batch_left_from_within:
  "jams_left_from_within (store_batch lib gj gs) =
     gj\<lparr>rows := filter (\<lambda>j. JamId j \<in> set (ids_not_located_within (store_batch lib gj gs))) (rows gj)\<rparr>"
  by (simp add: store_batch_def Let_def loc_isin_def)

lemma batch_intersects:
  "jams_per_section_intersects (store_batch lib gj gs) =
     filter check_directions
       (sjoin_inner (op_intersects lib) (jams_left_from_within (store_batch lib gj gs))
          (gs\<lparr>geometry := section_LineString\<rparr>))"
  by (simp add: store_batch_def Let_def set_geometry_def)


lemma batch_geo_sections_out:
  "geo_sections_out (store_batch lib gj gs) = gs\<lparr>geometry := section_LineString\<rparr>"
  by (simp add: store_batch_def Let_def set_geometry_def)

lemma sjoin_inner_mem:
  "p \<in> set (sjoin_inner pred L R) \<longleftrightarrow>
     fst p \<in> set (rows L) \<and> snd p \<in> set (rows R) \<and> pred (geometry L (fst p)) (geometry R (snd p))"
  using sjoin_inner_set [of "fst p" "snd p" pred L R] by simp

lemma unique_JamId:
  assumes "distinct (map JamId js)" "j \<in> set js" "j' \<in> set js" "JamId j = JamId j'"
  shows "j = j'"
  using assms by (meson distinct_map inj_on_def)

lemma left_from_contains_iff:
  assumes "distinct (map JamId (rows gj))"
  shows "j \<in> set (rows (jams_left_from_contains (store_batch lib gj gs))) \<longleftrightarrow>
           j \<in> set (rows gj) \<and>
           (\<forall>s\<in>set (rows gs). \<not> op_contains lib (geometry gj j) (geometry gs s))"
  using unique_JamId [OF assms]
  by (auto simp: batch_left_from_contains batch_ids_contains filter_empty_conv)

lemma left_from_within_iff:
  assumes "distinct (map JamId (rows gj))"
  shows "j \<in> set (rows (jams_left_from_within (store_batch lib gj gs))) \<longleftrightarrow>
           j \<in> set (rows (jams_left_from_contains (store_batch lib gj gs))) \<and>
           (\<forall>s\<in>set (rows gs). \<not> op_within lib (jam_alt_LineString j) (section_alt_LineString s))"
proof -
  have sub: "set (rows (jams_left_from_contains (store_batch lib gj gs))) \<subseteq> set (rows gj)"
    by (auto simp: batch_left_from_contains)
  show ?thesis
    using unique_JamId [OF assms] sub
    by (auto simp: batch_left_from_within batch_ids_within filter_empty_conv)
qed

text \<open>
  The filter of Tier C on the pairs its join produces: a pair is kept exactly when
  \<^verbatim>\<open>check_directions\<close> holds.
\<close>

lemma tier_C_filter_iff:
  assumes "extract_geo_jams lib jam_tbl skip limit 20 10 = Inr geo_jams"
    and "extract_geo_sections lib section_tbl 10 20 = Inr geo_sections"
    and "j \<in> set (rows (jams_left_from_within (store_batch lib geo_jams geo_sections)))"
    and "s \<in> set (rows geo_sections)"
    and "op_intersects lib (jam_LineString j) (section_LineString s)"
  shows "\<exists>major street.
           MajorDirection j = Some major \<and> StreetDirection s = Some street \<and>
           ((j, s) \<in> set (jams_per_section_intersects (store_batch lib geo_jams geo_sections)) \<longleftrightarrow>
              major = street \<or> major = SectionDirection s)"
proof -
  from assms(3) have j: "j \<in> set (rows geo_jams)"
    by (simp add: batch_left_from_within)
  from geo_jam_facts(4) [OF assms(1) j] obtain major where major: "MajorDirection j = Some major"
    by blast
  from geo_section_facts(5) [OF assms(2,4)] obtain street where street: "StreetDirection s = Some street"
    by blast
  have g: "geometry (jams_left_from_within (store_batch lib geo_jams geo_sections)) = jam_LineString"
    using geo_jam_facts(1) [OF assms(1) j] by (simp add: batch_left_from_within)
  have "(j, s) \<in> set (jams_per_section_intersects (store_batch lib geo_jams geo_sections)) \<longleftrightarrow>
          check_directions (j, s)"
    using assms(3,4,5) g by (simp add: batch_intersects sjoin_inner_set)
  also have "\<dots> \<longleftrightarrow> major = street \<or> major = SectionDirection s"
    by (simp add: check_directions_def cell_eq_def major street)
  finally show ?thesis using major street by blast
qed

section \<open>Facts about the concrete scenario\<close>

lemma Inr_projr: "\<not> isl v \<Longrightarrow> v = Inr (projr v)"
  by (cases v) auto

lemma ex_geo_jams_Inr: "extract_geo_jams box_lib ex_jams 0 (Some 20000) 20 10 = Inr ex_geo_jams"
proof -
  have "\<not> isl (extract_geo_jams box_lib ex_jams 0 (Some 20000) 20 10)" by code_simp
  then show ?thesis unfolding ex_geo_jams_def by (rule Inr_projr)
qed

lemma ex_geo_sections_Inr: "extract_geo_sections box_lib ex_sections 10 20 = Inr ex_geo_sections"
proof -
  have "\<not> isl (extract_geo_sections box_lib ex_sections 10 20)" by code_simp
  then show ?thesis unfolding ex_geo_sections_def by (rule Inr_projr)
qed

lemma ex_geo_jams_rows:
  "rows ex_geo_jams =
   [\<lparr>JamId = 1, JamDateStart = 10, JamUuid = ''j1'',
     JamDscCoordinatesLonLat = Some [\<lparr>x = 200, y = - 5\<rparr>, \<lparr>x = 200, y = 25\<rparr>],
     jams_line_list = [(200, - 5), (200, 25)], jams_line_UTM = [(200, - 5), (200, 25)],
     jam_LineString = (180, - 25, 220, 45), jam_alt_LineString = (190, - 15, 210, 35),
     LonDirection = Some ''Leste'', LatDirection = Some ''Norte'',
     MajorDirection = Some ''Norte/Sul''\<rparr>,
    \<lparr>JamId = 3, JamDateStart = 20, JamUuid = ''j3'',
     JamDscCoordinatesLonLat = Some [\<lparr>x = 15, y = 30\<rparr>, \<lparr>x = 18, y = 70\<rparr>],
     jams_line_list = [(15, 30), (18, 70)], jams_line_UTM = [(15, 30), (18, 70)],
     jam_LineString = (- 5, 10, 38, 90), jam_alt_LineString = (5, 20, 28, 80),
     LonDirection = Some ''Leste'', LatDirection = Some ''Norte'',
     MajorDirection = Some ''Norte/Sul''\<rparr>,
    \<lparr>JamId = 2, JamDateStart = 25, JamUuid = ''j2'',
     JamDscCoordinatesLonLat = Some [\<lparr>x = 0, y = 10\<rparr>, \<lparr>x = 0, y = 25\<rparr>],
     jams_line_list = [(0, 10), (0, 25)], jams_line_UTM = [(0, 10), (0, 25)],
     jam_LineString = (- 20, - 10, 20, 45), jam_alt_LineString = (- 10, 0, 10, 35),
     LonDirection = Some ''Leste'', LatDirection = Some ''Norte'',
     MajorDirection = Some ''Norte/Sul''\<rparr>,
    \<lparr>JamId = 4, JamDateStart = 30, JamUuid = ''j4'',
     JamDscCoordinatesLonLat = Some [\<lparr>x = 1000, y = 1000\<rparr>, \<lparr>x = 1010, y = 1000\<rparr>],
     jams_line_list = [(1000, 1000), (1010, 1000)], jams_line_UTM = [(1000, 1000), (1010, 1000)],
     jam_LineString = (980, 980, 1030, 1020), jam_alt_LineString = (990, 990, 1020, 1010),
     LonDirection = Some ''Leste'', LatDirection = Some ''Norte'',
     MajorDirection = Some ''Leste/Oeste''\<rparr>]"
  by code_simp

lemma ex_geo_sections_rows:
  "rows ex_geo_sections =
   [\<lparr>SctnId = 1, SctnDscNome = ''Rua A'', SctnDscCoordxUtmComeco = 0,
     SctnDscCoordyUtmComeco = 0, SctnDscCoordxUtmMeio = 0, SctnDscCoordyUtmMeio = 50,
     SctnDscCoordxUtmFinal = 0, SctnDscCoordyUtmFinal = 100,
     MinX = 0, MaxX = 0, MinY = 0, MaxY = 100,
     StreetDirection = Some ''Norte/Sul'', SectionDirection = ''Norte/Sul'',
     Street_line_XY = [(0, 0), (0, 50), (0, 100)],
     Street_line_LonLat = [(0, 0), (0, 50), (0, 100)],
     section_LineString = (- 10, - 10, 10, 110), section_alt_LineString = (- 20, - 20, 20, 120)\<rparr>,
    \<lparr>SctnId = 2, SctnDscNome = ''Rua B'', SctnDscCoordxUtmComeco = - 50,
     SctnDscCoordyUtmComeco = 50, SctnDscCoordxUtmMeio = 0, SctnDscCoordyUtmMeio = 50,
     SctnDscCoordxUtmFinal = 50, SctnDscCoordyUtmFinal = 50,
     MinX = - 50, MaxX = 50, MinY = 50, MaxY = 50,
     StreetDirection = Some ''Leste/Oeste'', SectionDirection = ''Leste/Oeste'',
     Street_line_XY = [(- 50, 50), (0, 50), (50, 50)],
     Street_line_LonLat = [(- 50, 50), (0, 50), (50, 50)],
     section_LineString = (- 60, 40, 60, 60), section_alt_LineString = (- 70, 30, 70, 70)\<rparr>,
    \<lparr>SctnId = 3, SctnDscNome = ''Rua C'', SctnDscCoordxUtmComeco = 200,
     SctnDscCoordyUtmComeco = 0, SctnDscCoordxUtmMeio = 200, SctnDscCoordyUtmMeio = 5,
     SctnDscCoordxUtmFinal = 200, SctnDscCoordyUtmFinal = 10,
     MinX = 200, MaxX = 200, MinY = 0, MaxY = 10,
     StreetDirection = Some ''Norte/Sul'', SectionDirection = ''Norte/Sul'',
     Street_line_XY = [(200, 0), (200, 5), (200, 10)],
     Street_line_LonLat = [(200, 0), (200, 5), (200, 10)],
     section_LineString = (190, - 10, 210, 20), section_alt_LineString = (180, - 20, 220, 30)\<rparr>,
    \<lparr>SctnId = 4, SctnDscNome = ''Rua C'', SctnDscCoordxUtmComeco = 200,
     SctnDscCoordyUtmComeco = 10, SctnDscCoordxUtmMeio = 200, SctnDscCoordyUtmMeio = 15,
     SctnDscCoordxUtmFinal = 200, SctnDscCoordyUtmFinal = 20,
     MinX = 200, MaxX = 200, MinY = 10, MaxY = 20,
     StreetDirection = Some ''Norte/Sul'', SectionDirection = ''Norte/Sul'',
     Street_line_XY = [(200, 10), (200, 15), (200, 20)],
     Street_line_LonLat = [(200, 10), (200, 15), (200, 20)],
     section_LineString = (190, 0, 210, 30), section_alt_LineString = (180, - 10, 220, 40)\<rparr>]"
  by code_simp

lemmas ex_row_defs =
  ex_j1_def ex_j2_def ex_j3_def ex_j4_def ex_s1_def ex_s2_def ex_s3_def ex_s4_def
  ex_geo_jams_rows ex_geo_sections_rows

lemma ex_jam_rows:
  "ex_j1 \<in> set (rows ex_geo_jams)" "ex_j2 \<in> set (rows ex_geo_jams)"
  "ex_j3 \<in> set (rows ex_geo_jams)" "ex_j4 \<in> set (rows ex_geo_jams)"
  by (simp_all add: ex_row_defs)

lemma ex_section_rows:
  "ex_s1 \<in> set (rows ex_geo_sections)" "ex_s2 \<in> set (rows ex_geo_sections)"
  "ex_s3 \<in> set (rows ex_geo_sections)" "ex_s4 \<in> set (rows ex_geo_sections)"
  by (simp_all add: ex_row_defs)

lemma ex_geometry:
  "geometry ex_geo_jams = jam_LineString" "geometry ex_geo_sections = section_LineString"
  using geo_jam_facts(1) [OF ex_geo_jams_Inr ex_jam_rows(1)]
    geo_section_facts(1) [OF ex_geo_sections_Inr ex_section_rows(1)]
  by simp_all

lemma box_lib_simps:
  "op_contains box_lib = box_contains" "op_within box_lib = (\<lambda>a b. box_contains b a)"
  "op_intersects box_lib = box_intersects"
  by (simp_all add: box_lib_def)

lemma ex_boxes:
  "jam_LineString ex_j1 = (180, -25, 220, 45)" "jam_alt_LineString ex_j1 = (190, -15, 210, 35)"
  "jam_LineString ex_j2 = (-20, -10, 20, 45)" "jam_alt_LineString ex_j2 = (-10, 0, 10, 35)"
  "jam_LineString ex_j3 = (-5, 10, 38, 90)" "jam_alt_LineString ex_j3 = (5, 20, 28, 80)"
  "section_LineString ex_s1 = (-10, -10, 10, 110)" "section_alt_LineString ex_s1 = (-20, -20, 20, 120)"
  "section_LineString ex_s2 = (-60, 40, 60, 60)" "section_alt_LineString ex_s2 = (-70, 30, 70, 70)"
  "section_LineString ex_s3 = (190, -10, 210, 20)" "section_LineString ex_s4 = (190, 0, 210, 30)"
  by (simp_all add: ex_row_defs)

lemma ex_directions:
  "MajorDirection ex_j3 = Some ''Norte/Sul''"
  "StreetDirection ex_s1 = Some ''Norte/Sul''" "SectionDirection ex_s1 = ''Norte/Sul''"
  "StreetDirection ex_s2 = Some ''Leste/Oeste''" "SectionDirection ex_s2 = ''Leste/Oeste''"
  by (simp_all add: ex_row_defs)

lemma ex_ids_not_located_contains:
  "ids_not_located_contains (store_batch box_lib ex_geo_jams ex_geo_sections) = [3, 2, 4]"
  by (simp add: batch_ids_contains ex_geometry ex_geo_jams_rows ex_geo_sections_rows box_lib_simps)

lemma ex_ids_not_located_within:
  "ids_not_located_within (store_batch box_lib ex_geo_jams ex_geo_sections) = [3, 4]"
  by (simp add: batch_ids_within batch_left_from_contains ex_ids_not_located_contains
      ex_geo_jams_rows ex_geo_sections_rows box_lib_simps)

lemma ex_run_single:
  "store_jps box_lib ex_sections ex_jams 20000 [] =
     (None, [(10, ''j1'', 3), (10, ''j1'', 4), (25, ''j2'', 1), (20, ''j3'', 1)])"
  by code_simp

lemma box_single_section:
  "extract_geo_sections box_lib [r] 10 20 =
     Inr \<lparr>rows = [geo_section_of box_lib [r] 10 20 r], geometry = section_LineString\<rparr>"
proof -
  have "\<forall>v\<in>set [r]. section_ok box_lib 10 20 v"
    by (simp add: section_ok_def box_lib_def box_buffer_def col_Street_line_XY_def)
  from extract_geo_sections_ok [OF _ this] show ?thesis by simp
qed

lemma box_single_directions:
  "SectionDirection (geo_section_of box_lib [r] 10 20 r) =
     get_main_direction (col_MinX r, col_MaxX r, col_MinY r, col_MaxY r)"
  "StreetDirection (geo_section_of box_lib [r] 10 20 r) =
     Some (get_main_direction (col_MinX r, col_MaxX r, col_MinY r, col_MaxY r))"
  by (simp_all add: geo_section_of_def gb_def street_box_def)

lemma ex_square_geo_rows:
  "rows ex_square_geo = [geo_section_of box_lib [ex_square_section] 10 20 ex_square_section]"
  by (simp add: ex_square_geo_def box_single_section)

lemma ex_square_geo_Inr:
  "extract_geo_sections box_lib [ex_square_section] 10 20 = Inr ex_square_geo"
  by (simp add: ex_square_geo_def box_single_section)

lemma ex_square_geo_row:
  "hd (rows ex_square_geo) \<in> set (rows ex_square_geo)"
  "MinX (hd (rows ex_square_geo)) = 0" "MaxX (hd (rows ex_square_geo)) = 10"
  "MinY (hd (rows ex_square_geo)) = 0" "MaxY (hd (rows ex_square_geo)) = 10"
  "SctnDscNome (hd (rows ex_square_geo)) = ''Rua E''"
  "street_box [ex_square_section] ''Rua E'' = (0, 10, 0, 10)"
  by (simp_all add: ex_square_geo_rows geo_section_of_def ex_square_section_def street_box_def
        col_MinX_def col_MaxX_def col_MinY_def col_MaxY_def min_def max_def)







lemma ex_page2_Inr: "extract_geo_jams box_lib ex_jams 2 (Some 2) 20 10 = Inr ex_page2"
proof -
  have "\<not> isl (extract_geo_jams box_lib ex_jams 2 (Some 2) 20 10)" by code_simp
  then show ?thesis unfolding ex_page2_def by (rule Inr_projr)
qed

lemma ex_page2_pass:
  "map JamUuid (rows ex_page2) = [''j2'', ''j4'']"
  "map to_sql_row (jams_per_section_within (store_batch box_lib ex_page2 ex_geo_sections))
     = [(25, ''j2'', 1)]"
  "jams_per_section (store_batch box_lib ex_page2 ex_geo_sections) = Inl ValueError"
  by code_simp+

lemma ex_run_paged:
  "store_jps box_lib ex_sections ex_jams 2 [] =
     (Some ValueError, [(10, ''j1'', 3), (10, ''j1'', 4), (20, ''j3'', 1)])"
  by code_simp

lemma ex_run_broken:
  "store_jps box_lib ex_sections ex_broken_jams 20000 [] = (Some ValueError, [])"
  by code_simp

section \<open>The claims\<close>

text \<open>
  C1 (as amended). The claim has the containment the wrong way round. Tier A is
  \<^verbatim>\<open>gpd.sjoin(geo_jams, geo_sections, how="left", op="contains")\<close>, "jams that contain
  sections entirely": for every jam and every section of a page, the pair is accepted
  if and only if the jam's fat polygon (the buffer of radius 20 of its projected line,
  reprojected by \<^verbatim>\<open>to_crs\<close>) contains the section's thin polygon (the buffer of radius
  10 of its three points, reprojected).
\<close>

theorem C1_tier_A:
  assumes "extract_geo_jams lib jam_tbl skip limit 20 10 = Inr geo_jams"
    and "extract_geo_sections lib section_tbl 10 20 = Inr geo_sections"
    and "j \<in> set (rows geo_jams)" and "s \<in> set (rows geo_sections)"
  shows "((j, s) \<in> set (jams_per_section_contains (store_batch lib geo_jams geo_sections)) \<longleftrightarrow>
            op_contains lib (jam_LineString j) (section_LineString s)) \<and>
         (\<exists>fat. line_buffer lib (jams_line_UTM j) 20 = Inr fat \<and> jam_LineString j = to_crs lib fat) \<and>
         (\<exists>thin. line_buffer lib (Street_line_XY s) 10 = Inr thin \<and>
                  section_LineString s = to_crs lib thin)"
  using assms(3,4) geo_jam_facts(1,2) [OF assms(1,3)] geo_section_facts(1,2) [OF assms(2,4)]
  by (simp add: batch_contains sjoin_inner_set)

theorem C1_tier_A_witness:
  "extract_geo_jams box_lib ex_jams 0 (Some 20000) 20 10 = Inr ex_geo_jams \<and>
   extract_geo_sections box_lib ex_sections 10 20 = Inr ex_geo_sections \<and>
   ex_j1 \<in> set (rows ex_geo_jams) \<and> ex_s3 \<in> set (rows ex_geo_sections) \<and>
   op_contains box_lib (jam_LineString ex_j1) (section_LineString ex_s3) \<and>
   (ex_j1, ex_s3) \<in> set (jams_per_section_contains (store_batch box_lib ex_geo_jams ex_geo_sections))"
proof -
  have c: "op_contains box_lib (jam_LineString ex_j1) (section_LineString ex_s3)"
    by (simp add: ex_boxes box_lib_simps)
  from C1_tier_A [OF ex_geo_jams_Inr ex_geo_sections_Inr ex_jam_rows(1) ex_section_rows(3)] c
  show ?thesis
    using ex_geo_jams_Inr ex_geo_sections_Inr ex_jam_rows(1) ex_section_rows(3) by blast
qed

text \<open>
  The claim as stated fails on jam 1 and section 3 of the scenario: the pair is accepted
  in Tier A although the section's thin polygon does not contain the jam's fat polygon.
\<close>

theorem C1_tier_A_counterexample:
  "ex_j1 \<in> set (rows ex_geo_jams) \<and> ex_s3 \<in> set (rows ex_geo_sections) \<and>
   (ex_j1, ex_s3) \<in> set (jams_per_section_contains (store_batch box_lib ex_geo_jams ex_geo_sections)) \<and>
   \<not> op_contains box_lib (section_LineString ex_s3) (jam_LineString ex_j1)"
proof -
  have c: "op_contains box_lib (jam_LineString ex_j1) (section_LineString ex_s3)"
    "\<not> op_contains box_lib (section_LineString ex_s3) (jam_LineString ex_j1)"
    by (simp_all add: ex_boxes box_lib_simps)
  then show ?thesis
    using ex_jam_rows(1) ex_section_rows(3)
    by (simp add: batch_contains sjoin_inner_set ex_geometry)
qed

text \<open>
  C2. The code departs from the claim: a jam with an empty coordinate list is neither
  given a null direction nor excluded. \<^verbatim>\<open>get_direction\<close> guards only
  \<^verbatim>\<open>len(coord_list)\<close>; on an empty list \<^verbatim>\<open>coord_list[0]\<close> raises IndexError. Whatever
  the geometry library does, the extraction of a page that holds such a jam raises, and
  the run ends there instead of going on without the jam.
\<close>

theorem C2_empty_list_raises:
  assumes "r \<in> set (select_jams jam_tbl skip limit)"
    and "JamDscCoordinatesLonLat r = Some []"
  shows "get_direction (JamDscCoordinatesLonLat r) = Inl IndexError \<and>
         isl (extract_geo_jams lib jam_tbl skip limit main_buffer alt_buffer)"
  using empty_coordinates_abort [OF assms] assms(2) by (simp add: get_direction_empty)

text \<open>
  The scenario with and without such a jam: without it the run returns and writes four
  rows, with it the run raises and writes nothing.
\<close>

theorem C2_empty_list_raises_witness:
  "ex_j6_row \<in> set (select_jams ex_broken_jams 0 (Some 20000)) \<and>
   JamDscCoordinatesLonLat ex_j6_row = Some [] \<and>
   get_direction (JamDscCoordinatesLonLat ex_j6_row) = Inl IndexError \<and>
   isl (extract_geo_jams box_lib ex_broken_jams 0 (Some 20000) 20 10) \<and>
   store_jps box_lib ex_sections ex_jams 20000 [] =
     (None, [(10, ''j1'', 3), (10, ''j1'', 4), (25, ''j2'', 1), (20, ''j3'', 1)]) \<and>
   fst (store_jps box_lib ex_sections ex_broken_jams 20000 []) \<noteq> None \<and>
   snd (store_jps box_lib ex_sections ex_broken_jams 20000 []) = []"
proof -
  have a: "ex_j6_row \<in> set (select_jams ex_broken_jams 0 (Some 20000))"
  proof -
    have "length (sort_key JamDateStart ex_broken_jams) \<le> 20000"
      by (simp add: ex_broken_jams_def ex_jams_def)
    then have "select_jams ex_broken_jams 0 (Some 20000) = sort_key JamDateStart ex_broken_jams"
      by (simp add: select_jams_def)
    then show ?thesis by (simp add: ex_broken_jams_def)
  qed
  have b: "JamDscCoordinatesLonLat ex_j6_row = Some []"
    by (simp add: ex_j6_row_def)
  from C2_empty_list_raises [OF a b, of box_lib 20 10] a b ex_run_single
  show ?thesis by (simp add: ex_run_broken)
qed

text \<open>
  C3 (as amended). For jam polylines the claim holds: two coordinate sequences of at
  least two points with the same first and the same last point get the same result of
  \<^verbatim>\<open>get_direction\<close> (LonDirection, LatDirection and MajorDirection), whatever lies
  between. SectionDirection and StreetDirection are not covered: they are computed by
  \<^verbatim>\<open>get_main_direction\<close> from bounding boxes over all three points of a section (for
  the street, of all its sections), the middle point included.
\<close>

theorem C3_first_last_only:
  assumes "2 \<le> length cl" and "2 \<le> length cl'"
    and "hd cl = hd cl'" and "last cl = last cl'"
  shows "get_direction (Some cl) = get_direction (Some cl')"
proof -
  from assms(1,2) have ne: "cl \<noteq> []" "cl' \<noteq> []" by auto
  show ?thesis
    unfolding get_direction_nonempty [OF ne(1)] get_direction_nonempty [OF ne(2)] assms(3,4)
    by (rule refl)
qed

theorem C3_first_last_only_witness:
  "2 \<le> length [\<lparr>x = 0, y = 0\<rparr>, \<lparr>x = 7, y = 40\<rparr>, \<lparr>x = 9, y = -3\<rparr>, \<lparr>x = 10, y = 1\<rparr>] \<and>
   2 \<le> length [\<lparr>x = 0, y = 0\<rparr>, \<lparr>x = 10, y = 1\<rparr>] \<and>
   get_direction (Some [\<lparr>x = 0, y = 0\<rparr>, \<lparr>x = 7, y = 40\<rparr>, \<lparr>x = 9, y = -3\<rparr>, \<lparr>x = 10, y = 1\<rparr>])
     = get_direction (Some [\<lparr>x = 0, y = 0\<rparr>, \<lparr>x = 10, y = 1\<rparr>])"
proof -
  have a: "2 \<le> length [\<lparr>x = 0, y = 0\<rparr>, \<lparr>x = 7, y = 40\<rparr>, \<lparr>x = 9, y = -3\<rparr>, \<lparr>x = 10, y = 1\<rparr>]"
    and b: "2 \<le> length [\<lparr>x = 0, y = 0\<rparr>, \<lparr>x = 10, y = (1::real)\<rparr>]"
    by simp_all
  have c: "hd [\<lparr>x = 0, y = 0\<rparr>, \<lparr>x = 7, y = 40\<rparr>, \<lparr>x = 9, y = -3\<rparr>, \<lparr>x = 10, y = 1\<rparr>]
             = hd [\<lparr>x = 0, y = 0\<rparr>, \<lparr>x = 10, y = 1\<rparr>]"
    and d: "last [\<lparr>x = 0, y = 0\<rparr>, \<lparr>x = 7, y = 40\<rparr>, \<lparr>x = 9, y = -3\<rparr>, \<lparr>x = 10, y = 1\<rparr>]
             = last [\<lparr>x = 0, y = 0\<rparr>, \<lparr>x = 10, y = 1\<rparr>]"
    by simp_all
  from C3_first_last_only [OF a b c d] a b show ?thesis by (intro conjI)
qed

text \<open>
  The claim as stated fails for sections: two sections with the same first and last
  points and different middle points get different SectionDirection and StreetDirection.
\<close>

theorem C3_first_last_only_counterexample:
  "hd (col_Street_line_XY ex_flat_section) = hd (col_Street_line_XY ex_bent_section) \<and>
   last (col_Street_line_XY ex_flat_section) = last (col_Street_line_XY ex_bent_section) \<and>
   \<not> isl (extract_geo_sections box_lib [ex_flat_section] 10 20) \<and>
   \<not> isl (extract_geo_sections box_lib [ex_bent_section] 10 20) \<and>
   map SectionDirection (rows (projr (extract_geo_sections box_lib [ex_flat_section] 10 20)))
     = [''Leste/Oeste''] \<and>
   map SectionDirection (rows (projr (extract_geo_sections box_lib [ex_bent_section] 10 20)))
     = [''Norte/Sul''] \<and>
   map StreetDirection (rows (projr (extract_geo_sections box_lib [ex_flat_section] 10 20)))
     = [Some ''Leste/Oeste''] \<and>
   map StreetDirection (rows (projr (extract_geo_sections box_lib [ex_bent_section] 10 20)))
     = [Some ''Norte/Sul'']"
  by (simp add: box_single_section box_single_directions col_Street_line_XY_def
        ex_flat_section_def ex_bent_section_def col_MinX_def col_MaxX_def col_MinY_def col_MaxY_def
        min_def max_def)

text \<open>
  C4. In one pass over a page whose jams have distinct JamId, a jam accepted in Tier A
  is in neither the pool of Tier B (\<open>jams_left_from_contains\<close>) nor that of Tier C
  (\<open>jams_left_from_within\<close>); a jam accepted in Tier B comes from the pool of Tier B and
  is not in the pool of Tier C; a jam accepted in Tier C comes from the pool of Tier C.
  Within a tier nothing is deduplicated: every pair of a jam and a section that
  satisfies the predicate of Tier A is accepted, so one jam can be accepted against
  several sections.
\<close>

theorem C4_tiers_partition:
  assumes "distinct (map JamId (rows geo_jams))"
  shows "(\<forall>p\<in>set (jams_per_section_contains (store_batch lib geo_jams geo_sections)).
            fst p \<notin> set (rows (jams_left_from_contains (store_batch lib geo_jams geo_sections))) \<and>
            fst p \<notin> set (rows (jams_left_from_within (store_batch lib geo_jams geo_sections)))) \<and>
         (\<forall>p\<in>set (jams_per_section_within (store_batch lib geo_jams geo_sections)).
            fst p \<in> set (rows (jams_left_from_contains (store_batch lib geo_jams geo_sections))) \<and>
            fst p \<notin> set (rows (jams_left_from_within (store_batch lib geo_jams geo_sections)))) \<and>
         (\<forall>p\<in>set (jams_per_section_intersects (store_batch lib geo_jams geo_sections)).
            fst p \<in> set (rows (jams_left_from_within (store_batch lib geo_jams geo_sections)))) \<and>
         (\<forall>j\<in>set (rows geo_jams). \<forall>s\<in>set (rows geo_sections).
            op_contains lib (geometry geo_jams j) (geometry geo_sections s) \<longrightarrow>
            (j, s) \<in> set (jams_per_section_contains (store_batch lib geo_jams geo_sections)))"
proof (intro conjI ballI impI)
  fix p assume p: "p \<in> set (jams_per_section_contains (store_batch lib geo_jams geo_sections))"
  then have m: "fst p \<in> set (rows geo_jams) \<and> snd p \<in> set (rows geo_sections) \<and>
      op_contains lib (geometry geo_jams (fst p)) (geometry geo_sections (snd p))"
    by (simp add: batch_contains sjoin_inner_mem)
  then show a: "fst p \<notin> set (rows (jams_left_from_contains (store_batch lib geo_jams geo_sections)))"
    by (auto simp: left_from_contains_iff [OF assms])
  then show "fst p \<notin> set (rows (jams_left_from_within (store_batch lib geo_jams geo_sections)))"
    by (simp add: left_from_within_iff [OF assms])
next
  fix p assume p: "p \<in> set (jams_per_section_within (store_batch lib geo_jams geo_sections))"
  then have m: "fst p \<in> set (rows (jams_left_from_contains (store_batch lib geo_jams geo_sections))) \<and>
      snd p \<in> set (rows geo_sections) \<and>
      op_within lib (jam_alt_LineString (fst p)) (section_alt_LineString (snd p))"
    by (simp add: batch_within sjoin_inner_mem set_geometry_def) (simp add: batch_left_from_contains)
  then show "fst p \<in> set (rows (jams_left_from_contains (store_batch lib geo_jams geo_sections)))"
    by simp
  from m show "fst p \<notin> set (rows (jams_left_from_within (store_batch lib geo_jams geo_sections)))"
    by (auto simp: left_from_within_iff [OF assms])
next
  fix p assume p: "p \<in> set (jams_per_section_intersects (store_batch lib geo_jams geo_sections))"
  then show "fst p \<in> set (rows (jams_left_from_within (store_batch lib geo_jams geo_sections)))"
    by (simp add: batch_intersects sjoin_inner_mem)
next
  fix j s assume "j \<in> set (rows geo_jams)" "s \<in> set (rows geo_sections)"
    "op_contains lib (geometry geo_jams j) (geometry geo_sections s)"
  then show "(j, s) \<in> set (jams_per_section_contains (store_batch lib geo_jams geo_sections))"
    by (simp add: batch_contains sjoin_inner_set)
qed

theorem C4_tiers_partition_witness:
  "distinct (map JamId (rows ex_geo_jams)) \<and>
   (ex_j1, ex_s3) \<in> set (jams_per_section_contains (store_batch box_lib ex_geo_jams ex_geo_sections)) \<and>
   (ex_j1, ex_s4) \<in> set (jams_per_section_contains (store_batch box_lib ex_geo_jams ex_geo_sections)) \<and>
   ex_j1 \<notin> set (rows (jams_left_from_contains (store_batch box_lib ex_geo_jams ex_geo_sections))) \<and>
   ex_j1 \<notin> set (rows (jams_left_from_within (store_batch box_lib ex_geo_jams ex_geo_sections)))"
proof -
  have d: "distinct (map JamId (rows ex_geo_jams))" by (simp add: ex_geo_jams_rows)
  have c: "op_contains box_lib (geometry ex_geo_jams ex_j1) (geometry ex_geo_sections ex_s3)"
    "op_contains box_lib (geometry ex_geo_jams ex_j1) (geometry ex_geo_sections ex_s4)"
    by (simp_all add: ex_geometry ex_boxes box_lib_simps)
  note t = C4_tiers_partition [OF d, of box_lib ex_geo_sections]
  from t c ex_jam_rows(1) ex_section_rows(3,4)
  have a: "(ex_j1, ex_s3) \<in> set (jams_per_section_contains (store_batch box_lib ex_geo_jams ex_geo_sections))"
    "(ex_j1, ex_s4) \<in> set (jams_per_section_contains (store_batch box_lib ex_geo_jams ex_geo_sections))"
    by blast+
  from t a(1) have "fst (ex_j1, ex_s3) \<notin> set (rows (jams_left_from_contains (store_batch box_lib ex_geo_jams ex_geo_sections))) \<and>
     fst (ex_j1, ex_s3) \<notin> set (rows (jams_left_from_within (store_batch box_lib ex_geo_jams ex_geo_sections)))"
    by blast
  with d a show ?thesis by simp
qed


text \<open>
  C6. In Tier B, for every jam of the page that Tier A accepted against no section and
  every section, the pair is accepted if and only if the jam's thin polygon (the buffer
  of radius 10 of its projected line) is within the section's fat polygon (the buffer
  of radius 20 of its three points).
\<close>

theorem C6_tier_B:
  assumes "extract_geo_jams lib jam_tbl skip limit 20 10 = Inr geo_jams"
    and "extract_geo_sections lib section_tbl 10 20 = Inr geo_sections"
    and "j \<in> set (rows geo_jams)" and "s \<in> set (rows geo_sections)"
    and "\<forall>s'. (j, s') \<notin> set (jams_per_section_contains (store_batch lib geo_jams geo_sections))"
  shows "((j, s) \<in> set (jams_per_section_within (store_batch lib geo_jams geo_sections)) \<longleftrightarrow>
            op_within lib (jam_alt_LineString j) (section_alt_LineString s)) \<and>
         line_buffer lib (jams_line_UTM j) 10 = Inr (jam_alt_LineString j) \<and>
         line_buffer lib (Street_line_XY s) 20 = Inr (section_alt_LineString s)"
proof -
  from assms(3,5) have "filter (\<lambda>s. op_contains lib (geometry geo_jams j) (geometry geo_sections s))
                          (rows geo_sections) = []"
    by (auto simp: batch_contains sjoin_inner_set filter_empty_conv)
  with assms(3) have "j \<in> set (rows (jams_left_from_contains (store_batch lib geo_jams geo_sections)))"
    by (auto simp: batch_left_from_contains batch_ids_contains)
  then show ?thesis
    using assms(4) geo_jam_facts(3) [OF assms(1,3)] geo_section_facts(3) [OF assms(2,4)]
    by (simp add: batch_within sjoin_inner_set set_geometry_def) (simp add: batch_left_from_contains)
qed

theorem C6_tier_B_witness:
  "extract_geo_jams box_lib ex_jams 0 (Some 20000) 20 10 = Inr ex_geo_jams \<and>
   extract_geo_sections box_lib ex_sections 10 20 = Inr ex_geo_sections \<and>
   ex_j2 \<in> set (rows ex_geo_jams) \<and> ex_s1 \<in> set (rows ex_geo_sections) \<and>
   op_within box_lib (jam_alt_LineString ex_j2) (section_alt_LineString ex_s1) \<and>
   (ex_j2, ex_s1) \<in> set (jams_per_section_within (store_batch box_lib ex_geo_jams ex_geo_sections))"
proof -
  have "\<forall>s\<in>set (rows ex_geo_sections).
          \<not> op_contains box_lib (jam_LineString ex_j2) (section_LineString s)"
    by (simp add: ex_boxes ex_geo_sections_rows box_lib_simps)
  then have u: "\<forall>s'. (ex_j2, s') \<notin> set (jams_per_section_contains (store_batch box_lib ex_geo_jams ex_geo_sections))"
    by (simp add: batch_contains sjoin_inner_set ex_geometry)
  have w: "op_within box_lib (jam_alt_LineString ex_j2) (section_alt_LineString ex_s1)"
    by (simp add: ex_boxes box_lib_simps)
  from C6_tier_B [OF ex_geo_jams_Inr ex_geo_sections_Inr ex_jam_rows(2) ex_section_rows(1) u] w
  show ?thesis
    using ex_geo_jams_Inr ex_geo_sections_Inr ex_jam_rows(2) ex_section_rows(1) by blast
qed

text \<open>
  C7. For a coordinate sequence of at least two points the classifier returns a Series
  of three directions: lat_direction is Norte exactly when \<open>last.y - first.y \<ge> 0\<close> and
  Sul otherwise, lon_direction is Leste exactly when \<open>last.x - first.x \<ge> 0\<close> and Oeste
  otherwise, and major_direction is Norte/Sul exactly when \<open>|delta_y| > |delta_x|\<close> and
  Leste/Oeste otherwise, so that a tie gives Leste/Oeste.
\<close>

theorem C7_direction_rules:
  assumes "2 \<le> length cl"
  shows "\<exists>lon lat major.
           get_direction (Some cl) = Inr (DirSeries lon lat major) \<and>
           (lat = ''Norte'') = (y (last cl) - y (hd cl) \<ge> 0) \<and>
           (lat = ''Sul'') = (\<not> y (last cl) - y (hd cl) \<ge> 0) \<and>
           (lon = ''Leste'') = (x (last cl) - x (hd cl) \<ge> 0) \<and>
           (lon = ''Oeste'') = (\<not> x (last cl) - x (hd cl) \<ge> 0) \<and>
           (major = ''Norte/Sul'') = (\<bar>y (last cl) - y (hd cl)\<bar> > \<bar>x (last cl) - x (hd cl)\<bar>) \<and>
           (major = ''Leste/Oeste'') = (\<not> \<bar>y (last cl) - y (hd cl)\<bar> > \<bar>x (last cl) - x (hd cl)\<bar>)"
proof -
  from assms have ne: "cl \<noteq> []" by auto
  show ?thesis
    unfolding get_direction_nonempty [OF ne] by simp
qed

theorem C7_direction_rules_witness:
  "2 \<le> length [\<lparr>x = 0, y = 0\<rparr>, \<lparr>x = 5, y = 9\<rparr>, \<lparr>x = 3, y = -3\<rparr>] \<and>
   get_direction (Some [\<lparr>x = 0, y = 0\<rparr>, \<lparr>x = 5, y = 9\<rparr>, \<lparr>x = 3, y = -3\<rparr>])
     = Inr (DirSeries ''Leste'' ''Sul'' ''Leste/Oeste'')"
  using C7_direction_rules [of "[\<lparr>x = 0, y = 0\<rparr>, \<lparr>x = 5, y = 9\<rparr>, \<lparr>x = 3, y = -3\<rparr>]"]
  by auto

text \<open>
  C8. The code departs from the claim: paging can lose rows. In the scenario, whose
  start times are distinct, a single page returns and writes four rows. With page size
  2 the second page holds jams 2 and 4: jam 2 is accepted in Tier B, jam 4 meets no
  section, so the Tier C join has no row and the pass raises at line 196 before
  \<^verbatim>\<open>to_sql\<close>. The run ends with the three rows of the first page, and the row of jam 2
  is lost.
\<close>

theorem C8_paged_run_loses_rows:
  "distinct (map JamDateStart ex_jams) \<and>
   store_jps box_lib ex_sections ex_jams 20000 [] =
     (None, [(10, ''j1'', 3), (10, ''j1'', 4), (25, ''j2'', 1), (20, ''j3'', 1)]) \<and>
   extract_geo_jams box_lib ex_jams 2 (Some 2) 20 10 = Inr ex_page2 \<and>
   map JamUuid (rows ex_page2) = [''j2'', ''j4''] \<and>
   map to_sql_row (jams_per_section_within (store_batch box_lib ex_page2 ex_geo_sections))
     = [(25, ''j2'', 1)] \<and>
   isl (jams_per_section (store_batch box_lib ex_page2 ex_geo_sections)) \<and>
   fst (store_jps box_lib ex_sections ex_jams 2 []) \<noteq> None \<and>
   snd (store_jps box_lib ex_sections ex_jams 2 []) =
     [(10, ''j1'', 3), (10, ''j1'', 4), (20, ''j3'', 1)]"
proof -
  have d: "distinct (map JamDateStart ex_jams)" by (simp add: ex_jams_def)
  show ?thesis
    using d ex_run_single ex_page2_Inr ex_page2_pass(1,2)
    by (simp add: ex_page2_pass(3) ex_run_paged)
qed

text \<open>
  C10. The two classifiers break ties differently. A section whose bounding box has
  equal X and Y extent has SectionDirection Norte/Sul, and a section of a street whose
  aggregate bounding box has equal extents has StreetDirection Norte/Sul
  (\<^verbatim>\<open>delta_y >= delta_x\<close>); a jam of at least two points with \<open>|delta_x| = |delta_y|\<close> has
  MajorDirection Leste/Oeste (\<^verbatim>\<open>abs(delta_y) > abs(delta_x)\<close> fails); the two values
  differ.
\<close>

theorem C10_tie_break:
  assumes "extract_geo_sections lib section_tbl main_buffer alt_buffer = Inr geo_sections"
    and "s \<in> set (rows geo_sections)"
  shows "(MaxX s - MinX s = MaxY s - MinY s \<longrightarrow> SectionDirection s = ''Norte/Sul'') \<and>
         (\<forall>x0 x1 y0 y1. street_box section_tbl (SctnDscNome s) = (x0, x1, y0, y1) \<and>
                         x1 - x0 = y1 - y0 \<longrightarrow> StreetDirection s = Some ''Norte/Sul'') \<and>
         (\<forall>cl. 2 \<le> length cl \<and> \<bar>x (last cl) - x (hd cl)\<bar> = \<bar>y (last cl) - y (hd cl)\<bar> \<longrightarrow>
               (\<exists>lon lat. get_direction (Some cl) = Inr (DirSeries lon lat ''Leste/Oeste''))) \<and>
         ''Norte/Sul'' \<noteq> ''Leste/Oeste''"
proof (intro conjI allI impI)
  assume "MaxX s - MinX s = MaxY s - MinY s"
  then show "SectionDirection s = ''Norte/Sul''"
    by (simp add: geo_section_facts(4) [OF assms])
next
  fix x0 x1 y0 y1
  assume "street_box section_tbl (SctnDscNome s) = (x0, x1, y0, y1) \<and> x1 - x0 = y1 - y0"
  then show "StreetDirection s = Some ''Norte/Sul''"
    by (simp add: geo_section_facts(5) [OF assms])
next
  fix cl :: "coord list"
  assume a: "2 \<le> length cl \<and> \<bar>x (last cl) - x (hd cl)\<bar> = \<bar>y (last cl) - y (hd cl)\<bar>"
  then have "cl \<noteq> []" by auto
  from get_direction_nonempty [OF this] a
  show "\<exists>lon lat. get_direction (Some cl) = Inr (DirSeries lon lat ''Leste/Oeste'')"
    by simp
next
  show "''Norte/Sul'' \<noteq> ''Leste/Oeste''" by simp
qed

theorem C10_tie_break_witness:
  "extract_geo_sections box_lib [ex_square_section] 10 20 = Inr ex_square_geo \<and>
   hd (rows ex_square_geo) \<in> set (rows ex_square_geo) \<and>
   MaxX (hd (rows ex_square_geo)) - MinX (hd (rows ex_square_geo)) =
     MaxY (hd (rows ex_square_geo)) - MinY (hd (rows ex_square_geo)) \<and>
   SectionDirection (hd (rows ex_square_geo)) = ''Norte/Sul'' \<and>
   StreetDirection (hd (rows ex_square_geo)) = Some ''Norte/Sul'' \<and>
   2 \<le> length [\<lparr>x = 0, y = 0\<rparr>, \<lparr>x = 10, y = 10\<rparr>] \<and>
   (\<exists>lon lat. get_direction (Some [\<lparr>x = 0, y = 0\<rparr>, \<lparr>x = 10, y = 10\<rparr>])
        = Inr (DirSeries lon lat ''Leste/Oeste''))"
proof -
  note t = C10_tie_break [OF ex_square_geo_Inr ex_square_geo_row(1)]
  have e: "MaxX (hd (rows ex_square_geo)) - MinX (hd (rows ex_square_geo)) =
           MaxY (hd (rows ex_square_geo)) - MinY (hd (rows ex_square_geo))"
    by (simp add: ex_square_geo_row)
  with t have 1: "SectionDirection (hd (rows ex_square_geo)) = ''Norte/Sul''" by blast
  from t ex_square_geo_row(6,7)
  have 2: "StreetDirection (hd (rows ex_square_geo)) = Some ''Norte/Sul''" by simp
  from t have "2 \<le> length [\<lparr>x = 0, y = 0\<rparr>, \<lparr>x = 10, y = 10\<rparr>] \<and>
      \<bar>x (last [\<lparr>x = 0, y = 0\<rparr>, \<lparr>x = 10, y = 10\<rparr>]) - x (hd [\<lparr>x = 0, y = 0\<rparr>, \<lparr>x = 10, y = 10\<rparr>])\<bar> =
      \<bar>y (last [\<lparr>x = 0, y = 0\<rparr>, \<lparr>x = 10, y = 10\<rparr>]) - y (hd [\<lparr>x = 0, y = 0\<rparr>, \<lparr>x = 10, y = 10\<rparr>])\<bar> \<longrightarrow>
      (\<exists>lon lat. get_direction (Some [\<lparr>x = 0, y = 0\<rparr>, \<lparr>x = 10, y = 10\<rparr>])
          = Inr (DirSeries lon lat ''Leste/Oeste''))"
    by blast
  then have 3: "\<exists>lon lat. get_direction (Some [\<lparr>x = 0, y = 0\<rparr>, \<lparr>x = 10, y = 10\<rparr>])
          = Inr (DirSeries lon lat ''Leste/Oeste'')"
    by simp
  show ?thesis
    using ex_square_geo_Inr ex_square_geo_row(1) e 1 2 3 by simp
qed

end
